theory Spec2Isabelle
  imports Main "HOL-Library.Word"
begin

section \<open>Configuration record (internal/config/config.go)\<close>

text \<open>
  Go's \<open>time.Duration\<close> is a signed 64-bit count of nanoseconds and \<open>int\<close> is a signed
  64-bit integer on the supported platforms: both are 64-bit words, read with \<open>sint\<close>,
  and multiplication wraps around as it does in Go.
\<close>

type_synonym Duration = "64 word"

definition Minute :: Duration where
  "Minute = 60000000000"

definition DefaultCheckInterval :: Duration where
  "DefaultCheckInterval = 10 * Minute"

record Config =
  AIProvider :: string
  APIKey :: string
  BaseURL :: string
  CheckIntervalMinutes :: "64 word"
  RootPath :: string

text \<open>
  \<^verbatim>\<open>func (c *Config) GetCheckInterval() time.Duration {
    if c.CheckIntervalMinutes <= 0 { return DefaultCheckInterval }
    return time.Duration(c.CheckIntervalMinutes) * time.Minute }\<close>
\<close>

definition GetCheckInterval :: "Config \<Rightarrow> Duration" where
  "GetCheckInterval c =
     (if sint (CheckIntervalMinutes c) \<le> 0 then DefaultCheckInterval
      else CheckIntervalMinutes c * Minute)"

text \<open>A configuration that differs from the defaults only in its interval.\<close>

definition config_with_interval :: "64 word \<Rightarrow> Config" where
  "config_with_interval n =
     \<lparr>AIProvider = ''gemini'', APIKey = [], BaseURL = [],
      CheckIntervalMinutes = n, RootPath = []\<rparr>"


section \<open>String helpers of the Go standard library\<close>

text \<open>
  Go strings are byte strings; \<open>len\<close> counts bytes and \<open>s[:n]\<close> keeps the first
  \<open>n\<close> bytes, so they are \<open>char list\<close>s with \<open>length\<close> and \<open>take\<close>.

  \<open>strings.TrimSpace\<close> removes the leading and trailing runes for which
  \<open>unicode.IsSpace\<close> holds. The runes are listed by their UTF-8 encodings: the six
  ASCII ones, U+0085, U+00A0, U+1680, U+2000 to U+200A, U+2028, U+2029, U+202F, U+205F
  and U+3000.
\<close>

definition space_runes :: "string list" where
  "space_runes =
    [[CHR 0x09], [CHR 0x0A], [CHR 0x0B], [CHR 0x0C], [CHR 0x0D], [CHR 0x20],
     [CHR 0xC2, CHR 0x85], [CHR 0xC2, CHR 0xA0],
     [CHR 0xE1, CHR 0x9A, CHR 0x80],
     [CHR 0xE2, CHR 0x80, CHR 0x80], [CHR 0xE2, CHR 0x80, CHR 0x81],
     [CHR 0xE2, CHR 0x80, CHR 0x82], [CHR 0xE2, CHR 0x80, CHR 0x83],
     [CHR 0xE2, CHR 0x80, CHR 0x84], [CHR 0xE2, CHR 0x80, CHR 0x85],
     [CHR 0xE2, CHR 0x80, CHR 0x86], [CHR 0xE2, CHR 0x80, CHR 0x87],
     [CHR 0xE2, CHR 0x80, CHR 0x88], [CHR 0xE2, CHR 0x80, CHR 0x89],
     [CHR 0xE2, CHR 0x80, CHR 0x8A],
     [CHR 0xE2, CHR 0x80, CHR 0xA8], [CHR 0xE2, CHR 0x80, CHR 0xA9],
     [CHR 0xE2, CHR 0x80, CHR 0xAF],
     [CHR 0xE2, CHR 0x81, CHR 0x9F],
     [CHR 0xE3, CHR 0x80, CHR 0x80]]"

text \<open>The length of the first of \<open>seqs\<close> that \<open>s\<close> starts with; 0 when there is none.\<close>

definition leading :: "string list \<Rightarrow> string \<Rightarrow> nat" where
  "leading seqs s =
     (case find (\<lambda>p. p \<noteq> [] \<and> take (length p) s = p) seqs of
        None \<Rightarrow> 0 | Some p \<Rightarrow> length p)"

lemma leading_le: "leading seqs s \<le> length s"
proof (cases "find (\<lambda>p. p \<noteq> [] \<and> take (length p) s = p) seqs")
  case None
  then show ?thesis by (simp add: leading_def)
next
  case (Some p)
  then have "take (length p) s = p" by (auto simp: find_Some_iff)
  then have "length (take (length p) s) = length p" by simp
  then have "length p \<le> length s" by simp
  with Some show ?thesis by (simp add: leading_def)
qed

function trim_leading :: "string list \<Rightarrow> string \<Rightarrow> string" where
  "trim_leading seqs s =
     (if leading seqs s = 0 then s else trim_leading seqs (drop (leading seqs s) s))"
  by pat_completeness auto
termination
proof (relation "measure (\<lambda>(seqs, s). length s)")
  show "wf (measure (\<lambda>(seqs, s). length s))" by simp
next
  fix seqs :: "string list" and s :: string
  assume "leading seqs s \<noteq> 0"
  moreover have "leading seqs s \<le> length s" by (rule leading_le)
  ultimately show "((seqs, drop (leading seqs s) s), (seqs, s)) \<in> measure (\<lambda>(seqs, s). length s)"
    by simp
qed

declare trim_leading.simps [simp del]

definition TrimSpace :: "string \<Rightarrow> string" where
  "TrimSpace s = rev (trim_leading (map rev space_runes) (rev (trim_leading space_runes s)))"

text \<open>\<open>strings.Trim(s, cutset)\<close> for a cutset of ASCII characters.\<close>

definition Trim :: "string \<Rightarrow> string \<Rightarrow> string" where
  "Trim s cutset =
     rev (dropWhile (\<lambda>c. c \<in> set cutset) (rev (dropWhile (\<lambda>c. c \<in> set cutset) s)))"

definition TrimSuffix :: "string \<Rightarrow> string \<Rightarrow> string" where
  "TrimSuffix s suffix =
     (if length suffix \<le> length s \<and> drop (length s - length suffix) s = suffix
      then take (length s - length suffix) s else s)"

fun Contains :: "string \<Rightarrow> string \<Rightarrow> bool" where
  "Contains [] substr = (substr = [])"
| "Contains (c # s) substr = (take (length substr) (c # s) = substr \<or> Contains s substr)"

text \<open>Decimal rendering of an integer, as the verb \<open>%d\<close> prints it.\<close>

fun digits :: "nat \<Rightarrow> string" where
  "digits n =
     (if n < 10 then [''0123456789'' ! n]
      else digits (n div 10) @ [''0123456789'' ! (n mod 10)])"

declare digits.simps [simp del]

definition Itoa :: "int \<Rightarrow> string" where
  "Itoa i = (if i < 0 then CHR ''-'' # digits (nat (- i)) else digits (nat i))"

definition newline :: string where
  "newline = [CHR 0x0A]"


section \<open>Strings through \<open>encoding/json\<close>\<close>

text \<open>
  The request bodies and the configuration file are written by \<open>json.Marshal\<close> and
  \<open>json.MarshalIndent\<close>. The encoder walks a string with \<open>utf8.DecodeRuneInString\<close>
  and writes U+FFFD for every byte that does not start a well-formed UTF-8 sequence;
  everything else it writes, escaped or not, denotes the bytes it read. So the string
  that the JSON text denotes, which is what the receiver or a later read gets, is the
  Go string with each such byte replaced by the three bytes of U+FFFD.

  \<open>rune_size\<close> is the size \<open>DecodeRuneInString\<close> returns for a well-formed sequence
  at the start of the string, by the table \<open>first\<close> and the accept ranges of package
  \<open>utf8\<close>, and 0 where it returns \<open>RuneError\<close> with size 1.
\<close>

definition within :: "nat \<Rightarrow> nat \<Rightarrow> char \<Rightarrow> bool" where
  "within lo hi c = (lo \<le> of_char c \<and> of_char c \<le> hi)"

definition rune_need :: "nat \<Rightarrow> nat" where
  "rune_need x =
     (if x < 0x80 then 1
      else if 0xC2 \<le> x \<and> x \<le> 0xDF then 2
      else if 0xE0 \<le> x \<and> x \<le> 0xEF then 3
      else if 0xF0 \<le> x \<and> x \<le> 0xF4 then 4
      else 0)"

definition second_lo :: "nat \<Rightarrow> nat" where
  "second_lo x = (if x = 0xE0 then 0xA0 else if x = 0xF0 then 0x90 else 0x80)"

definition second_hi :: "nat \<Rightarrow> nat" where
  "second_hi x = (if x = 0xED then 0x9F else if x = 0xF4 then 0x8F else 0xBF)"

definition rune_size :: "string \<Rightarrow> nat" where
  "rune_size s =
     (case s of
        [] \<Rightarrow> 0
      | b0 # rest \<Rightarrow>
          let x = of_char b0; n = rune_need x in
          if n = 0 then 0
          else if n = 1 then 1
          else if length s < n then 0
          else if \<not> within (second_lo x) (second_hi x) (s ! 1) then 0
          else if n = 2 then 2
          else if \<not> within 0x80 0xBF (s ! 2) then 0
          else if n = 3 then 3
          else if \<not> within 0x80 0xBF (s ! 3) then 0
          else 4)"

definition replacement_char :: string where
  "replacement_char = [CHR 0xEF, CHR 0xBF, CHR 0xBD]"

function json_text :: "string \<Rightarrow> string" where
  "json_text s =
     (if s = [] then []
      else if rune_size s = 0 then replacement_char @ json_text (tl s)
      else take (rune_size s) s @ json_text (drop (rune_size s) s))"
  by pat_completeness auto
termination
  by (relation "measure length") auto

declare json_text.simps [simp del]

text \<open>A string is well-formed UTF-8 when it is a sequence of well-formed sequences.\<close>

function valid_utf8 :: "string \<Rightarrow> bool" where
  "valid_utf8 s =
     (if s = [] then True
      else if rune_size s = 0 then False
      else valid_utf8 (drop (rune_size s) s))"
  by pat_completeness auto
termination
  by (relation "measure length") auto

declare valid_utf8.simps [simp del]

definition ascii :: "string \<Rightarrow> bool" where
  "ascii s = list_all (\<lambda>c. (of_char c :: nat) < 0x80) s"


section \<open>Text-generation providers (internal/ai)\<close>

definition SystemPrompt :: string where
  "SystemPrompt = ''You are a git automation bot. Analyze the provided code diff. Respond ONLY with a concise, Conventional Commit message (e.g., 'fix(ui): adjust button padding'). Do not add quotes or markdown.''"

text \<open>
  What a provider hands to \<open>doRequest\<close>: the URL, the headers, and the two fields of the
  JSON body that vary, the model name (empty for Gemini, which has none) and the prompt
  text, as the Go strings given to the JSON encoder. The backend is the environment: it answers a request with a transport or API
  error, a body that does not parse, a body without a candidate, or the text of the
  first candidate.
\<close>

record request =
  url :: string
  headers :: "(string \<times> string) list"
  model :: string
  prompt :: string

datatype reply =
    RequestError string
  | InvalidBody string
  | NoCandidate
  | Candidate string

datatype Provider =
    GeminiProvider string
  | OpenAIProvider string string
  | AnthropicProvider string

text \<open>The marker \<^verbatim>\<open>"\n... (truncated)"\<close> and the text \<^verbatim>\<open>"\n\nCode diff:\n"\<close> of the prompt.\<close>

definition truncation_marker :: string where
  "truncation_marker = newline @ ''... (truncated)''"

definition diff_heading :: string where
  "diff_heading = newline @ newline @ ''Code diff:'' @ newline"

definition quote_cutset :: string where
  "quote_cutset = [CHR 0x22, CHR 0x27, CHR 0x60]"

text \<open>
  Each \<open>GenerateCommitMsg\<close> returns the requests it sent, in order, and its result:
  \<open>Inl\<close> the error text or \<open>Inr\<close> the commit message.
\<close>

definition Gemini_GenerateCommitMsg ::
  "string \<Rightarrow> (request \<Rightarrow> reply) \<Rightarrow> string \<Rightarrow> request list \<times> (string + string)" where
  "Gemini_GenerateCommitMsg apiKey backend diff0 =
     (if apiKey = [] then ([], Inl ''Gemini API key is not set'')
      else
        let diff = (if length diff0 > 100000 then take 100000 diff0 @ truncation_marker
                    else diff0);
            req = \<lparr>url = ''https://generativelanguage.googleapis.com/v1beta/models/gemini-3-flash-preview:generateContent?key='' @ apiKey,
                   headers = [(''Content-Type'', ''application/json'')],
                   model = [],
                   prompt = SystemPrompt @ diff_heading @ diff\<rparr>
        in ([req],
            case backend req of
              RequestError e \<Rightarrow> Inl e
            | InvalidBody e \<Rightarrow> Inl (''failed to unmarshal response: '' @ e)
            | NoCandidate \<Rightarrow> Inl ''no response from Gemini API''
            | Candidate text \<Rightarrow> Inr (Trim (TrimSpace text) quote_cutset)))"

definition OpenAI_GenerateCommitMsg ::
  "string \<Rightarrow> string \<Rightarrow> (request \<Rightarrow> reply) \<Rightarrow> string \<Rightarrow> request list \<times> (string + string)" where
  "OpenAI_GenerateCommitMsg apiKey baseURL backend diff0 =
     (if apiKey = [] then ([], Inl ''OpenAI API key is not set'')
      else
        let diff = (if length diff0 > 100000 then take 100000 diff0 @ truncation_marker
                    else diff0);
            req = \<lparr>url = TrimSuffix baseURL ''/'' @ ''/chat/completions'',
                   headers =
                     [(''Content-Type'', ''application/json''),
                      (''Authorization'', ''Bearer '' @ apiKey)] @
                     (if Contains baseURL ''openrouter''
                      then [(''HTTP-Referer'', ''https://github.com/aadityansha/autogit''),
                            (''X-Title'', ''Autogit'')]
                      else []),
                   model = (if Contains baseURL ''openrouter'' then ''openai/gpt-3.5-turbo''
                            else ''gpt-3.5-turbo''),
                   prompt = SystemPrompt @ diff_heading @ diff\<rparr>
        in ([req],
            case backend req of
              RequestError e \<Rightarrow> Inl e
            | InvalidBody e \<Rightarrow> Inl (''failed to unmarshal response: '' @ e)
            | NoCandidate \<Rightarrow> Inl ''no response from OpenAI API''
            | Candidate text \<Rightarrow> Inr (Trim (TrimSpace text) quote_cutset)))"

definition Anthropic_GenerateCommitMsg ::
  "string \<Rightarrow> (request \<Rightarrow> reply) \<Rightarrow> string \<Rightarrow> request list \<times> (string + string)" where
  "Anthropic_GenerateCommitMsg apiKey backend diff0 =
     (if apiKey = [] then ([], Inl ''Anthropic API key is not set'')
      else
        let diff = (if length diff0 > 100000 then take 100000 diff0 @ truncation_marker
                    else diff0);
            req = \<lparr>url = ''https://api.anthropic.com/v1/messages'',
                   headers =
                     [(''Content-Type'', ''application/json''),
                      (''x-api-key'', apiKey),
                      (''anthropic-version'', ''2023-06-01'')],
                   model = ''claude-3-haiku-20240307'',
                   prompt = SystemPrompt @ diff_heading @ diff\<rparr>
        in ([req],
            case backend req of
              RequestError e \<Rightarrow> Inl e
            | InvalidBody e \<Rightarrow> Inl (''failed to unmarshal response: '' @ e)
            | NoCandidate \<Rightarrow> Inl ''no response from Anthropic API''
            | Candidate text \<Rightarrow> Inr (Trim (TrimSpace text) quote_cutset)))"

text \<open>The interface \<open>AIProvider\<close>: the call dispatches on the provider.\<close>

fun GenerateCommitMsg ::
  "Provider \<Rightarrow> (request \<Rightarrow> reply) \<Rightarrow> string \<Rightarrow> request list \<times> (string + string)" where
  "GenerateCommitMsg (GeminiProvider k) backend diff = Gemini_GenerateCommitMsg k backend diff"
| "GenerateCommitMsg (OpenAIProvider k b) backend diff = OpenAI_GenerateCommitMsg k b backend diff"
| "GenerateCommitMsg (AnthropicProvider k) backend diff = Anthropic_GenerateCommitMsg k backend diff"

fun provider_key :: "Provider \<Rightarrow> string" where
  "provider_key (GeminiProvider k) = k"
| "provider_key (OpenAIProvider k b) = k"
| "provider_key (AnthropicProvider k) = k"

text \<open>
  The prompt texts a call transmitted: for each request, the text that the prompt
  field of the JSON body denotes.
\<close>

definition transmitted :: "request list \<times> (string + string) \<Rightarrow> string list" where
  "transmitted r = map (\<lambda>q. json_text (prompt q)) (fst r)"


section \<open>Version-control wrapper (internal/git/git.go)\<close>

text \<open>
  Every function of the wrapper runs one \<open>git\<close> subprocess. What the subprocess
  answers is the environment of a cycle: for \<open>cmd.Output()\<close> the error text or the
  standard output, for \<open>cmd.Run()\<close> the error text if any.
\<close>

record cycle_env =
  git_status :: "string + string"
  git_diff :: "string + string"
  git_add :: "string option"
  git_commit :: "string \<Rightarrow> string option"
  git_push :: "string option"
  backend :: "request \<Rightarrow> reply"

text \<open>
  \<^verbatim>\<open>output, err := exec.Command("git", "status", "--porcelain").Output()
  if err != nil { return false, fmt.Errorf("failed to check git status: %w", err) }
  return len(strings.TrimSpace(string(output))) > 0, nil\<close>
\<close>

definition HasChanges :: "string + string \<Rightarrow> string + bool" where
  "HasChanges out =
     (case out of
        Inl err \<Rightarrow> Inl (''failed to check git status: '' @ err)
      | Inr output \<Rightarrow> Inr (length (TrimSpace output) > 0))"

text \<open>
  \<^verbatim>\<open>output, err := exec.Command("git", "diff").Output()
  if err != nil { return "", fmt.Errorf("failed to get git diff: %w", err) }
  return string(output), nil\<close>
\<close>

definition GetDiff :: "string + string \<Rightarrow> string + string" where
  "GetDiff out =
     (case out of
        Inl err \<Rightarrow> Inl (''failed to get git diff: '' @ err)
      | Inr output \<Rightarrow> Inr output)"


section \<open>Desktop notifications (package notify)\<close>

text \<open>
  What a cycle does to the world outside the daemon's own fields, in the order it
  does it: a line appended to the repository's log, a subprocess of the git wrapper, a
  call of the provider's \<open>GenerateCommitMsg\<close> with a diff, a request sent to the
  backend, a desktop notification, a call of \<open>ticker.Stop()\<close>.
\<close>

datatype action =
    Log string
  | GitStatus
  | GitDiff
  | Generate string
  | HttpPost request
  | GitAddAll
  | GitCommit string
  | GitPush
  | Notify string string
  | TickerStop

definition NotifyError :: "string \<Rightarrow> string \<Rightarrow> action" where
  "NotifyError repoName errorMsg =
     Notify (''Autogit Paused: Error in '' @ repoName)
            (''Merge Conflict or Network Error: '' @ errorMsg)"

definition NotifySuccess :: "string \<Rightarrow> string \<Rightarrow> action" where
  "NotifySuccess repoName commitMsg =
     Notify (''Autogit: Committed to '' @ repoName) (''Commit: '' @ commitMsg)"


section \<open>The daemon (package daemon)\<close>

definition StatusRunning :: string where "StatusRunning = ''running''"
definition StatusError :: string where "StatusError = ''error''"
definition StatusPaused :: string where "StatusPaused = ''paused''"

text \<open>
  A \<open>time.Ticker\<close> by its contract: it delivers ticks with its period while it is
  active, and after \<open>Stop\<close> no more ticks are sent. The field \<open>ticker\<close> of a daemon is
  \<open>None\<close> while the Go pointer is nil.
\<close>

record Ticker =
  period :: Duration
  active :: bool

record Daemon =
  config :: Config
  aiProvider :: Provider
  ticker :: "Ticker option"
  status :: string
  rootPath :: string
  repoName :: string

definition ticker_active :: "Daemon \<Rightarrow> bool" where
  "ticker_active d = (case ticker d of None \<Rightarrow> False | Some t \<Rightarrow> active t)"

definition stop_ticker :: "Ticker option \<Rightarrow> Ticker option" where
  "stop_ticker t = map_option (\<lambda>k. k\<lparr>active := False\<rparr>) t"

text \<open>
  \<open>checkAndCommit\<close>: one cycle. It returns the daemon after the cycle and the actions
  of the cycle. The step \<open>if d.ticker != nil { d.ticker.Stop() }\<close> of the push failure
  is the last action of that branch.
\<close>

definition checkAndCommit :: "cycle_env \<Rightarrow> Daemon \<Rightarrow> Daemon \<times> action list" where
  "checkAndCommit env d =
     (let a0 = [Log ''Checking for changes...'', GitStatus] in
      case HasChanges (git_status env) of
        Inl err \<Rightarrow> (d, a0 @ [Log (''ERROR: Failed to check changes: '' @ err)])
      | Inr hasChanges \<Rightarrow>
          if \<not> hasChanges then (d, a0 @ [Log ''No changes detected''])
          else
            let a1 = a0 @ [Log ''Changes detected, generating commit message...'', GitDiff] in
            case GetDiff (git_diff env) of
              Inl err \<Rightarrow> (d, a1 @ [Log (''ERROR: Failed to get diff: '' @ err)])
            | Inr diff \<Rightarrow>
                let gen = GenerateCommitMsg (aiProvider d) (backend env) diff;
                    a2 = a1 @ [Generate diff] @ map HttpPost (fst gen) in
                case snd gen of
                  Inl err \<Rightarrow>
                    (d, a2 @ [Log (''ERROR: Failed to generate commit message: '' @ err)])
                | Inr commitMsg \<Rightarrow>
                    let a3 = a2 @ [Log (''Generated commit message: '' @ commitMsg), GitAddAll] in
                    case git_add env of
                      Some err \<Rightarrow> (d, a3 @ [Log (''ERROR: Failed to stage changes: '' @ err)])
                    | None \<Rightarrow>
                        let a4 = a3 @ [GitCommit commitMsg] in
                        case git_commit env commitMsg of
                          Some err \<Rightarrow> (d, a4 @ [Log (''ERROR: Failed to commit: '' @ err)])
                        | None \<Rightarrow>
                            let a5 = a4 @ [Log ''Committed successfully'', GitPush] in
                            case git_push env of
                              Some err \<Rightarrow>
                                (d\<lparr>status := StatusError, ticker := stop_ticker (ticker d)\<rparr>,
                                 a5 @ [Log (''ERROR: Failed to push: '' @ err),
                                       NotifyError (repoName d) err] @
                                      (if ticker d \<noteq> None then [TickerStop] else []))
                            | None \<Rightarrow>
                                (d\<lparr>status := StatusRunning\<rparr>,
                                 a5 @ [Log ''Pushed successfully'',
                                       NotifySuccess (repoName d) commitMsg]))"

text \<open>
  \<open>Start\<close>: the argument is the outcome of \<open>git.ChangeToRoot\<close> (the error text, if
  any). \<open>time.NewTicker\<close> panics on a non-positive interval. The result is the daemon
  and the actions, or the panic; the loop is launched only when a ticker was created.
\<close>

datatype 'a outcome = Returned 'a | Panic string

definition Start :: "string option \<Rightarrow> Daemon \<Rightarrow> (Daemon \<times> action list) outcome" where
  "Start chdir d =
     (let a0 = [Log (''Daemon started for repository: '' @ rootPath d)] in
      case chdir of
        Some err \<Rightarrow>
          Returned (d\<lparr>status := StatusError\<rparr>,
                    a0 @ [Log (''ERROR: Failed to change to root directory: '' @ err)])
      | None \<Rightarrow>
          let interval = GetCheckInterval (config d) in
          if sint interval \<le> 0 then Panic ''non-positive interval for NewTicker''
          else Returned (d\<lparr>ticker := Some \<lparr>period = interval, active = True\<rparr>\<rparr>, a0))"

text \<open>
  \<open>runLoop\<close>: the initial cycle, then the \<open>select\<close> over the ticker's channel and the
  stop channel. The events are what the two channels offer, in order: a tick, with the
  environment the cycle it triggers would meet, or the stop request. A tick is received
  only while the ticker is active; the stop request stops the ticker, logs and ends the
  loop, so that later events are never handled.
\<close>

datatype event = Tick cycle_env | StopRequest

fun select_loop :: "event list \<Rightarrow> Daemon \<Rightarrow> Daemon \<times> action list" where
  "select_loop [] d = (d, [])"
| "select_loop (Tick env # es) d =
     (if ticker_active d
      then (let r = checkAndCommit env d; r' = select_loop es (fst r)
            in (fst r', snd r @ snd r'))
      else select_loop es d)"
| "select_loop (StopRequest # es) d =
     (d\<lparr>ticker := stop_ticker (ticker d)\<rparr>, [TickerStop, Log ''Daemon stopped''])"

definition runLoop :: "cycle_env \<Rightarrow> event list \<Rightarrow> Daemon \<Rightarrow> Daemon \<times> action list" where
  "runLoop env0 es d =
     (let r = checkAndCommit env0 d; r' = select_loop es (fst r)
      in (fst r', snd r @ snd r'))"

definition GetStatus :: "Daemon \<Rightarrow> string" where
  "GetStatus d = status d"

text \<open>The number of cycles among some actions: every cycle starts with one \<open>git status\<close>.\<close>

definition cycles :: "action list \<Rightarrow> nat" where
  "cycles acts = length (filter (\<lambda>a. a = GitStatus) acts)"

definition is_Generate :: "action \<Rightarrow> bool" where
  "is_Generate a = (case a of Generate x \<Rightarrow> True | _ \<Rightarrow> False)"

definition is_HttpPost :: "action \<Rightarrow> bool" where
  "is_HttpPost a = (case a of HttpPost r \<Rightarrow> True | _ \<Rightarrow> False)"

definition is_GitCommit :: "action \<Rightarrow> bool" where
  "is_GitCommit a = (case a of GitCommit m \<Rightarrow> True | _ \<Rightarrow> False)"

definition is_Notify :: "action \<Rightarrow> bool" where
  "is_Notify a = (case a of Notify t m \<Rightarrow> True | _ \<Rightarrow> False)"


section \<open>The state store (internal/config/config.go)\<close>

text \<open>
  The store is two files in the configuration directory. A file is absent, cannot be
  read, does not parse, or holds a value: the value its JSON text denotes, an object as
  the list of its keys and values, with strings and integral numbers as values (other
  JSON values are not modelled). What the encoder does to a string on the way into the
  file, and what viper's reader does to a number on the way out, are part of
  \<open>SaveConfig\<close> and \<open>LoadConfig\<close> below. Writing replaces the file and removing an
  existing file deletes it; a write or remove refused by the file system is not
  modelled.
\<close>

datatype 'a stored_file = Absent | Unreadable string | Malformed string | Holds 'a

datatype jvalue = JString string | JNumber int

record DaemonInfo =
  PID :: int
  RepoPath :: string
  Status :: string

record store =
  config_json :: "(string \<times> jvalue) list stored_file"
  daemon_json :: "DaemonInfo stored_file"

definition LoadDaemonInfo :: "store \<Rightarrow> string + DaemonInfo option" where
  "LoadDaemonInfo st =
     (case daemon_json st of
        Absent \<Rightarrow> Inr None
      | Unreadable e \<Rightarrow> Inl (''failed to read daemon info: '' @ e)
      | Malformed e \<Rightarrow> Inl (''failed to unmarshal daemon info: '' @ e)
      | Holds info \<Rightarrow> Inr (Some info))"

definition SaveDaemonInfo :: "DaemonInfo \<Rightarrow> store \<Rightarrow> string option \<times> store" where
  "SaveDaemonInfo info st = (None, st\<lparr>daemon_json := Holds info\<rparr>)"

definition DeleteDaemonInfo :: "store \<Rightarrow> string option \<times> store" where
  "DeleteDaemonInfo st =
     (case daemon_json st of
        Absent \<Rightarrow> (Some ''remove daemon.json: no such file or directory'', st)
      | _ \<Rightarrow> (None, st\<lparr>daemon_json := Absent\<rparr>))"

text \<open>
  \<open>SaveConfig\<close> marshals the record with its \<open>json\<close> tags, in the order of the fields.
  The file then denotes, for a string field, the text the encoder wrote for it, and for
  the interval the integer itself.
\<close>

definition SaveConfig :: "Config \<Rightarrow> store \<Rightarrow> string option \<times> store" where
  "SaveConfig cfg st =
     (None,
      st\<lparr>config_json := Holds
        [(''ai_provider'', JString (json_text (AIProvider cfg))),
         (''api_key'', JString (json_text (APIKey cfg))),
         (''base_url'', JString (json_text (BaseURL cfg))),
         (''check_interval_minutes'', JNumber (sint (CheckIntervalMinutes cfg))),
         (''root_path'', JString (json_text (RootPath cfg)))]\<rparr>)"

text \<open>
  \<open>LoadConfig\<close> reads through viper. The defaults it sets, the environment prefix
  \<open>AUTOGIT\<close> with \<open>AutomaticEnv\<close>, and the \<open>mapstructure\<close> tags of the fields are in the
  source; viper's lookup order is the library's: for a key it knows (from the file or
  the defaults) a non-empty environment variable \<open>AUTOGIT_KEY\<close> (the key in upper case) wins over the file,
  and the file over the default. Decoding is weakly typed: a number decodes into a
  string field as its decimal text, a string into the integer field through
  \<open>strconv.ParseInt\<close>, which is a parameter here.
\<close>

definition to_upper :: "char \<Rightarrow> char" where
  "to_upper c =
     (case map_of (zip ''abcdefghijklmnopqrstuvwxyz'' ''ABCDEFGHIJKLMNOPQRSTUVWXYZ'') c of
        Some u \<Rightarrow> u | None \<Rightarrow> c)"

definition env_key :: "string \<Rightarrow> string" where
  "env_key k = ''AUTOGIT_'' @ map to_upper k"

definition viper_defaults :: "(string \<times> jvalue) list" where
  "viper_defaults =
     [(''ai_provider'', JString ''gemini''),
      (''check_interval_minutes'', JNumber 10),
      (''base_url'', JString [])]"

definition viper_get ::
  "(string \<Rightarrow> string option) \<Rightarrow> (string \<times> jvalue) list \<Rightarrow> string \<Rightarrow> jvalue option" where
  "viper_get getenv obj k =
     (let stored = (case map_of obj k of Some v \<Rightarrow> Some v | None \<Rightarrow> map_of viper_defaults k) in
      if stored = None then None
      else (case getenv (env_key k) of
              None \<Rightarrow> stored
            | Some v \<Rightarrow> if v = [] then stored else Some (JString v)))"

definition decode_string :: "jvalue option \<Rightarrow> string" where
  "decode_string v =
     (case v of None \<Rightarrow> [] | Some (JString s) \<Rightarrow> s | Some (JNumber n) \<Rightarrow> Itoa n)"

text \<open>
  viper reads the file with \<open>json.Unmarshal\<close> into a map of interfaces, where every
  number is a \<open>float64\<close>: the integer of the file rounded to 53 significant bits, to
  nearest and ties to even (magnitudes beyond the range of \<open>float64\<close> are not
  modelled). \<open>mapstructure\<close> then converts with \<open>int64(f)\<close>; for a value outside
  the range of \<open>int64\<close> Go leaves the result to the implementation, and the one of
  amd64, the smallest \<open>int64\<close>, is taken here.
\<close>

function halvings :: "nat \<Rightarrow> nat" where
  "halvings a = (if a < 2 ^ 53 then 0 else Suc (halvings (a div 2)))"
  by pat_completeness auto
termination
  by (relation "measure id") auto

declare halvings.simps [simp del]

definition float64_of_int :: "int \<Rightarrow> int" where
  "float64_of_int n =
     (let a = nat \<bar>n\<bar>; e = halvings a in
      if e = 0 then n
      else
        let q = a div 2 ^ e; r = a mod 2 ^ e; half = 2 ^ (e - 1);
            m = (if half < r \<or> (r = half \<and> odd q) then q + 1 else q)
        in sgn n * int (m * 2 ^ e))"

definition int64_of_float :: "int \<Rightarrow> 64 word" where
  "int64_of_float v =
     (if - (2 ^ 63) \<le> v \<and> v < 2 ^ 63 then word_of_int v else 0x8000000000000000)"

definition decode_int :: "(string \<Rightarrow> int option) \<Rightarrow> jvalue option \<Rightarrow> string + 64 word" where
  "decode_int ParseInt v =
     (case v of
        None \<Rightarrow> Inr 0
      | Some (JNumber n) \<Rightarrow> Inr (int64_of_float (float64_of_int n))
      | Some (JString s) \<Rightarrow>
          (case ParseInt s of
             None \<Rightarrow> Inl (''cannot parse as int: '' @ s)
           | Some n \<Rightarrow> Inr (word_of_int n)))"

definition LoadConfig ::
  "(string \<Rightarrow> int option) \<Rightarrow> (string \<Rightarrow> string option) \<Rightarrow> store \<Rightarrow> (string + Config) \<times> store" where
  "LoadConfig ParseInt getenv st =
     (case config_json st of
        Absent \<Rightarrow>
          (let cfg = \<lparr>AIProvider = ''gemini'', APIKey = [], BaseURL = [],
                      CheckIntervalMinutes = 10, RootPath = []\<rparr>
           in case SaveConfig cfg st of
                (Some e, st') \<Rightarrow> (Inl (''failed to create default config: '' @ e), st')
              | (None, st') \<Rightarrow> (Inr cfg, st'))
      | Unreadable e \<Rightarrow> (Inl (''failed to read config: '' @ e), st)
      | Malformed e \<Rightarrow> (Inl (''failed to read config: '' @ e), st)
      | Holds obj \<Rightarrow>
          (case decode_int ParseInt (viper_get getenv obj ''check_interval_minutes'') of
             Inl e \<Rightarrow> (Inl (''failed to unmarshal config: '' @ e), st)
           | Inr n \<Rightarrow>
               (Inr \<lparr>AIProvider = decode_string (viper_get getenv obj ''ai_provider''),
                     APIKey = decode_string (viper_get getenv obj ''api_key''),
                     BaseURL = decode_string (viper_get getenv obj ''base_url''),
                     CheckIntervalMinutes = n,
                     RootPath = decode_string (viper_get getenv obj ''root_path'')\<rparr>,
                st)))"


section \<open>Spawning the daemon (daemon.StartDaemonProcess)\<close>

text \<open>
  The environment of a spawn: what \<open>os.Executable\<close> and \<open>filepath.Abs\<close> answer, and
  what starting the detached command answers, the error text or the child's process id.
\<close>

record spawn_env =
  os_executable :: "string + string"
  filepath_abs :: "string \<Rightarrow> string + string"
  cmd_start :: "string \<Rightarrow> string list \<Rightarrow> string + int"

definition StartDaemonProcess :: "spawn_env \<Rightarrow> string \<Rightarrow> store \<Rightarrow> string option \<times> store" where
  "StartDaemonProcess sp root st =
     (case os_executable sp of
        Inl e \<Rightarrow> (Some (''failed to get executable path: '' @ e), st)
      | Inr execPath \<Rightarrow>
          (case filepath_abs sp execPath of
             Inl e \<Rightarrow> (Some (''failed to resolve executable path: '' @ e), st)
           | Inr absExecPath \<Rightarrow>
               (case cmd_start sp absExecPath [''start-daemon'', root] of
                  Inl e \<Rightarrow> (Some (''failed to start daemon: '' @ e), st)
                | Inr pid \<Rightarrow>
                    (case SaveDaemonInfo \<lparr>PID = pid, RepoPath = root, Status = StatusRunning\<rparr> st of
                       (Some e, st') \<Rightarrow> (Some (''failed to save daemon info: '' @ e), st')
                     | (None, st') \<Rightarrow> (None, st')))))"

text \<open>
  The daemon process beside the store. A cycle has the daemon's fields and the actions
  of \<open>checkAndCommit\<close> as its whole effect: the function calls nothing of package
  \<open>config\<close>, so the store of the system is the same after the cycle.
\<close>

record system =
  disk :: store
  proc :: Daemon

definition daemon_cycle :: "cycle_env \<Rightarrow> system \<Rightarrow> system \<times> action list" where
  "daemon_cycle env sys =
     (let r = checkAndCommit env (proc sys) in (sys\<lparr>proc := fst r\<rparr>, snd r))"


section \<open>Control surface (the commands \<open>status\<close> and \<open>pause\<close>)\<close>

text \<open>
  The process table is the environment: what \<open>os.FindProcess\<close> answers for a process
  id (the error text, if any) and what \<open>process.Signal\<close> answers for a signal sent to
  it. A command's result is the lines it printed, the error it returned, the signals
  it sent and the store it leaves.
\<close>

datatype signal = Signal0 | SIGTERM

record processes =
  find_process :: "int \<Rightarrow> string option"
  send_signal :: "int \<Rightarrow> signal \<Rightarrow> string option"

record cmd_result =
  printed :: "string list"
  failure :: "string option"
  signals :: "(int \<times> signal) list"
  left :: store

definition isProcessRunning :: "processes \<Rightarrow> int \<Rightarrow> bool" where
  "isProcessRunning ps pid =
     (case find_process ps pid of
        Some e \<Rightarrow> False
      | None \<Rightarrow> send_signal ps pid Signal0 = None)"

text \<open>The signals \<open>isProcessRunning\<close> sends: the probe, when the process was found.\<close>

definition probe :: "processes \<Rightarrow> int \<Rightarrow> (int \<times> signal) list" where
  "probe ps pid = (case find_process ps pid of Some e \<Rightarrow> [] | None \<Rightarrow> [(pid, Signal0)])"

definition statusCmd :: "processes \<Rightarrow> store \<Rightarrow> cmd_result" where
  "statusCmd ps st =
     (case LoadDaemonInfo st of
        Inl e \<Rightarrow> \<lparr>printed = [''Status: Not running''], failure = None, signals = [], left = st\<rparr>
      | Inr None \<Rightarrow>
          \<lparr>printed = [''Status: Not running''], failure = None, signals = [], left = st\<rparr>
      | Inr (Some daemonInfo) \<Rightarrow>
          if \<not> isProcessRunning ps (PID daemonInfo)
          then \<lparr>printed = [''Status: Process not found (may have crashed)''], failure = None,
                signals = probe ps (PID daemonInfo), left = st\<rparr>
          else \<lparr>printed = [''Status: '' @ Status daemonInfo,
                           ''PID: '' @ Itoa (PID daemonInfo),
                           ''Repository: '' @ RepoPath daemonInfo],
                failure = None, signals = probe ps (PID daemonInfo), left = st\<rparr>)"

definition stopped_message :: string where
  "stopped_message = [CHR 0xE2, CHR 0x9C, CHR 0x93] @ '' Daemon stopped successfully''"

definition pauseCmd :: "processes \<Rightarrow> store \<Rightarrow> cmd_result" where
  "pauseCmd ps st =
     (case LoadDaemonInfo st of
        Inl e \<Rightarrow>
          \<lparr>printed = [], failure = Some ''no daemon is running'', signals = [], left = st\<rparr>
      | Inr None \<Rightarrow>
          \<lparr>printed = [], failure = Some ''no daemon is running'', signals = [], left = st\<rparr>
      | Inr (Some daemonInfo) \<Rightarrow>
          if \<not> isProcessRunning ps (PID daemonInfo)
          then \<lparr>printed = [], failure = Some ''daemon process not found (may have crashed)'',
                signals = probe ps (PID daemonInfo), left = snd (DeleteDaemonInfo st)\<rparr>
          else
            (case find_process ps (PID daemonInfo) of
               Some e \<Rightarrow>
                 \<lparr>printed = [], failure = Some (''failed to find process: '' @ e),
                  signals = probe ps (PID daemonInfo), left = st\<rparr>
             | None \<Rightarrow>
                 (case send_signal ps (PID daemonInfo) SIGTERM of
                    Some e \<Rightarrow>
                      \<lparr>printed = [], failure = Some (''failed to stop daemon: '' @ e),
                       signals = probe ps (PID daemonInfo) @ [(PID daemonInfo, SIGTERM)],
                       left = st\<rparr>
                  | None \<Rightarrow>
                      \<lparr>printed = [stopped_message], failure = None,
                       signals = probe ps (PID daemonInfo) @ [(PID daemonInfo, SIGTERM)],
                       left = snd (DeleteDaemonInfo st)\<rparr>)))"


section \<open>The git commands behind the wrapper\<close>

text \<open>
  The two commands of the detect and diff steps, by git's documentation, over the part
  of a working tree they read here: the tracked files with unstaged modifications, each
  with the hunks of its patch, and the untracked files. \<open>git status --porcelain\<close>
  prints one line for each, \<open>XY path\<close>, with \<open>XY\<close> the two characters
  \<open>" M"\<close> for a modified tracked file and \<open>"??"\<close> for an untracked one.
  \<open>git diff\<close> prints the patches of the unstaged changes of tracked files, and nothing
  for an untracked file.
\<close>

record worktree =
  modified :: "(string \<times> string) list"
  untracked :: "string list"

definition status_porcelain :: "worktree \<Rightarrow> string" where
  "status_porcelain wt =
     concat (map (\<lambda>(path, hunks). '' M '' @ path @ newline) (modified wt)) @
     concat (map (\<lambda>path. ''?? '' @ path @ newline) (untracked wt))"

definition diff_patches :: "worktree \<Rightarrow> string" where
  "diff_patches wt =
     concat (map (\<lambda>(path, hunks).
        ''diff --git a/'' @ path @ '' b/'' @ path @ newline @ hunks) (modified wt))"

text \<open>The environment of a cycle that runs in a working tree.\<close>

definition in_worktree :: "worktree \<Rightarrow> cycle_env \<Rightarrow> cycle_env" where
  "in_worktree wt env =
     env\<lparr>git_status := Inr (status_porcelain wt), git_diff := Inr (diff_patches wt)\<rparr>"


section \<open>Sample inputs\<close>

definition sample_daemon :: Daemon where
  "sample_daemon =
     \<lparr>config = config_with_interval 10,
      aiProvider = GeminiProvider ''AIzaSySampleKey0123456789'',
      ticker = Some \<lparr>period = 600000000000, active = True\<rparr>,
      status = StatusRunning,
      rootPath = ''/home/dev/project'',
      repoName = ''project''\<rparr>"

definition changed_env :: cycle_env where
  "changed_env =
     \<lparr>git_status = Inr ('' M main.go'' @ newline),
      git_diff = Inr (''diff --git a/main.go b/main.go'' @ newline),
      git_add = None,
      git_commit = (\<lambda>m. None),
      git_push = None,
      backend = (\<lambda>r. Candidate ''fix: handle empty input'')\<rparr>"

definition clean_env :: cycle_env where
  "clean_env = changed_env\<lparr>git_status := Inr [], git_diff := Inr []\<rparr>"

definition generation_failure_env :: cycle_env where
  "generation_failure_env =
     changed_env\<lparr>backend := (\<lambda>r. RequestError ''request failed: timeout'')\<rparr>"

definition push_failure_env :: cycle_env where
  "push_failure_env = changed_env\<lparr>git_push := Some ''exit status 1''\<rparr>"

definition empty_store :: store where
  "empty_store = \<lparr>config_json = Absent, daemon_json = Absent\<rparr>"

definition sample_spawn :: spawn_env where
  "sample_spawn =
     \<lparr>os_executable = Inr ''/usr/local/bin/autogit'',
      filepath_abs = (\<lambda>p. Inr p),
      cmd_start = (\<lambda>exe args. Inr 4242)\<rparr>"

definition sample_info :: DaemonInfo where
  "sample_info = \<lparr>PID = 4242, RepoPath = ''/home/dev/project'', Status = StatusRunning\<rparr>"

definition running_store :: store where
  "running_store = \<lparr>config_json = Absent, daemon_json = Holds sample_info\<rparr>"

text \<open>A process table where only the process 4242 exists, and one where none does.\<close>

definition live_table :: processes where
  "live_table =
     \<lparr>find_process = (\<lambda>pid. None),
      send_signal = (\<lambda>pid sig. if pid = 4242 then None else Some ''os: process already finished'')\<rparr>"

definition dead_table :: processes where
  "dead_table =
     \<lparr>find_process = (\<lambda>pid. None),
      send_signal = (\<lambda>pid sig. Some ''os: process already finished'')\<rparr>"

definition sample_config :: Config where
  "sample_config =
     \<lparr>AIProvider = ''openai'', APIKey = ''sk-saved-key'', BaseURL = ''https://api.openai.com/v1'',
      CheckIntervalMinutes = 15, RootPath = ''/home/dev/project''\<rparr>"

definition no_env :: "string \<Rightarrow> string option" where
  "no_env name = None"

definition key_in_env :: "string \<Rightarrow> string option" where
  "key_in_env name = (if name = ''AUTOGIT_API_KEY'' then Some ''sk-from-environment'' else None)"

text \<open>A diff line in ISO 8859-1, and an API key with a byte that is not UTF-8.\<close>

definition latin1_diff :: string where
  "latin1_diff = ''+caf'' @ [CHR 0xE9, CHR 0x0A]"

definition binary_key :: string where
  "binary_key = [CHR ''k'', CHR 0xFF, CHR ''z'']"

definition only_untracked :: worktree where
  "only_untracked = \<lparr>modified = [], untracked = [''notes.txt'']\<rparr>"

definition one_modified :: worktree where
  "one_modified =
     \<lparr>modified = [(''main.go'', ''@@ -1 +1 @@'' @ newline @ ''-old'' @ newline @ ''+new'' @ newline)],
      untracked = []\<rparr>"


section \<open>Vocabulary of the properties\<close>

text \<open>The actions of the steps that follow detection, and those that stage, commit or push.\<close>

definition after_detection :: "action \<Rightarrow> bool" where
  "after_detection a =
     (a = GitDiff \<or> is_Generate a \<or> is_HttpPost a \<or> a = GitAddAll \<or> is_GitCommit a \<or>
      a = GitPush)"

definition writes_history :: "action \<Rightarrow> bool" where
  "writes_history a = (a = GitAddAll \<or> is_GitCommit a \<or> a = GitPush)"

text \<open>An environment variable that is not set, or set to the empty string.\<close>

definition unset :: "(string \<Rightarrow> string option) \<Rightarrow> string \<Rightarrow> bool" where
  "unset getenv name = (case getenv name of None \<Rightarrow> True | Some v \<Rightarrow> v = [])"

text \<open>The bytes that occur in the encoding of some space rune.\<close>

definition space_bytes :: "char set" where
  "space_bytes = \<Union> (set ` set space_runes)"


section \<open>Properties of the poll interval\<close>

lemma sint_Minute: "sint Minute = 60000000000"
  by (simp add: Minute_def)

lemma GetCheckInterval_nonpositive:
  "sint (CheckIntervalMinutes c) \<le> 0 \<Longrightarrow> sint (GetCheckInterval c) = 600000000000"
  by (simp add: GetCheckInterval_def DefaultCheckInterval_def Minute_def)

lemma GetCheckInterval_in_range:
  assumes "0 < sint (CheckIntervalMinutes c)"
    and "sint (CheckIntervalMinutes c) \<le> 153722867"
  shows "sint (GetCheckInterval c) = sint (CheckIntervalMinutes c) * 60000000000"
proof -
  let ?n = "sint (CheckIntervalMinutes c)"
  have "sint (CheckIntervalMinutes c * Minute) = signed_take_bit 63 (?n * 60000000000)"
    using sint_Minute by (simp add: sint_word_ariths)
  also have "\<dots> = ?n * 60000000000"
    using assms by (intro signed_take_bit_int_eq_self) auto
  finally show ?thesis
    using assms by (simp add: GetCheckInterval_def)
qed

lemma GetCheckInterval_wraps_to_zero:
  "GetCheckInterval (config_with_interval 9007199254740992) = 0"
  by (simp add: GetCheckInterval_def config_with_interval_def Minute_def)

text \<open>
  C4. The claim is that every positive interval \<open>n\<close> yields exactly \<open>n\<close> minutes and that
  the effective interval is never zero or negative. The guard of \<open>GetCheckInterval\<close>
  covers the non-positive values only: the product with \<open>time.Minute\<close> is a 64-bit
  multiplication, and from 153722868 minutes on it leaves the range of \<open>Duration\<close>.
  At 153722868 the configured value is positive and the resulting duration is negative,
  so it is not 153722868 minutes (9223372080000000000 ns).
\<close>

theorem GetCheckInterval_overflow:
  "0 < sint (CheckIntervalMinutes (config_with_interval 153722868)) \<and>
   sint (GetCheckInterval (config_with_interval 153722868)) = - 9223371993709551616 \<and>
   sint (GetCheckInterval (config_with_interval 153722868)) \<noteq> 153722868 * 60000000000"
  by (simp add: GetCheckInterval_def config_with_interval_def Minute_def)


section \<open>Evaluation of the sample inputs\<close>

lemmas eval_defs = TrimSpace_def trim_leading.simps leading_def space_runes_def newline_def
  HasChanges_def GetDiff_def

lemma HasChanges_clean: "HasChanges (git_status clean_env) = Inr False"
  by (simp add: clean_env_def eval_defs)

lemma HasChanges_generation_failure:
  "HasChanges (git_status generation_failure_env) = Inr True"
  by (simp add: generation_failure_env_def changed_env_def eval_defs)

lemma GetDiff_generation_failure:
  "GetDiff (git_diff generation_failure_env) = Inr (''diff --git a/main.go b/main.go'' @ newline)"
  by (simp add: generation_failure_env_def changed_env_def GetDiff_def)

lemma generation_failure_result:
  "snd (GenerateCommitMsg (aiProvider sample_daemon) (backend generation_failure_env)
      (''diff --git a/main.go b/main.go'' @ newline)) = Inl ''request failed: timeout''"
  by (simp add: sample_daemon_def generation_failure_env_def changed_env_def
      Gemini_GenerateCommitMsg_def Let_def)

lemma push_failure_reaches_push:
  "GitPush \<in> set (snd (checkAndCommit push_failure_env sample_daemon))"
  by (simp add: checkAndCommit_def push_failure_env_def changed_env_def sample_daemon_def
      Gemini_GenerateCommitMsg_def Let_def eval_defs)

lemma push_failure_status:
  "status (fst (checkAndCommit push_failure_env sample_daemon)) = StatusError"
  by (simp add: checkAndCommit_def push_failure_env_def changed_env_def sample_daemon_def
      Gemini_GenerateCommitMsg_def Let_def eval_defs)

lemma Start_sample:
  "Start None (sample_daemon\<lparr>ticker := None\<rparr>) =
     Returned (sample_daemon, [Log ''Daemon started for repository: /home/dev/project''])"
  by (simp add: Start_def sample_daemon_def GetCheckInterval_def config_with_interval_def
      Minute_def)

lemma live_4242: "isProcessRunning live_table 4242"
  by (simp add: isProcessRunning_def live_table_def)

lemma dead_4242: "\<not> isProcessRunning dead_table 4242"
  by (simp add: isProcessRunning_def dead_table_def)


section \<open>The commit cycle\<close>

text \<open>
  C3. A cycle that finds no uncommitted changes (\<open>HasChanges\<close> answers false without an
  error) leaves the daemon as it was and does three things only: it logs the check, runs
  \<open>git status\<close>, and logs "No changes detected". None of its actions is a diff
  retrieval, a generation call, a request to the backend, a staging, a commit or a push.
\<close>

theorem no_changes_cycle_is_noop:
  assumes "HasChanges (git_status env) = Inr False"
  shows "checkAndCommit env d =
           (d, [Log ''Checking for changes...'', GitStatus, Log ''No changes detected'']) \<and>
         filter after_detection (snd (checkAndCommit env d)) = []"
  using assms
  by (simp add: checkAndCommit_def after_detection_def is_Generate_def is_HttpPost_def
      is_GitCommit_def)

theorem no_changes_cycle_is_noop_witness:
  "HasChanges (git_status clean_env) = Inr False \<and>
   checkAndCommit clean_env sample_daemon =
     (sample_daemon, [Log ''Checking for changes...'', GitStatus, Log ''No changes detected'']) \<and>
   filter after_detection (snd (checkAndCommit clean_env sample_daemon)) = []"
  using HasChanges_clean no_changes_cycle_is_noop [of clean_env sample_daemon]
  by blast

text \<open>
  C6. When the generation step fails (changes were detected, the diff was retrieved, and
  \<open>GenerateCommitMsg\<close> returns an error), the cycle ends after logging the error: the
  daemon is unchanged, so its status and its ticker are what they were; no action of the
  cycle stages, commits or pushes, so no message of any kind is committed; no action is
  a notification; and with the ticker still active the next tick runs a full cycle.
\<close>

theorem generation_failure_aborts_cycle:
  assumes "HasChanges (git_status env) = Inr True"
    and "GetDiff (git_diff env) = Inr diff"
    and "snd (GenerateCommitMsg (aiProvider d) (backend env) diff) = Inl err"
  shows "checkAndCommit env d =
     (d, [Log ''Checking for changes...'', GitStatus,
          Log ''Changes detected, generating commit message...'', GitDiff, Generate diff] @
         map HttpPost (fst (GenerateCommitMsg (aiProvider d) (backend env) diff)) @
         [Log (''ERROR: Failed to generate commit message: '' @ err)]) \<and>
    filter writes_history (snd (checkAndCommit env d)) = [] \<and>
    filter is_Notify (snd (checkAndCommit env d)) = [] \<and>
    status (fst (checkAndCommit env d)) = status d \<and>
    (ticker_active d \<longrightarrow>
       select_loop [Tick env2] (fst (checkAndCommit env d)) = checkAndCommit env2 d)"
  using assms
  by (simp add: checkAndCommit_def Let_def writes_history_def is_GitCommit_def is_Notify_def
      filter_empty_conv)

theorem generation_failure_aborts_cycle_witness:
  "HasChanges (git_status generation_failure_env) = Inr True \<and>
   ticker_active sample_daemon \<and>
   checkAndCommit generation_failure_env sample_daemon =
     (sample_daemon,
      [Log ''Checking for changes...'', GitStatus,
       Log ''Changes detected, generating commit message...'', GitDiff,
       Generate (''diff --git a/main.go b/main.go'' @ newline)] @
      map HttpPost (fst (GenerateCommitMsg (aiProvider sample_daemon)
         (backend generation_failure_env) (''diff --git a/main.go b/main.go'' @ newline))) @
      [Log (''ERROR: Failed to generate commit message: '' @ ''request failed: timeout'')]) \<and>
   filter writes_history (snd (checkAndCommit generation_failure_env sample_daemon)) = [] \<and>
   filter is_Notify (snd (checkAndCommit generation_failure_env sample_daemon)) = [] \<and>
   select_loop [Tick changed_env] (fst (checkAndCommit generation_failure_env sample_daemon))
     = checkAndCommit changed_env sample_daemon"
proof -
  have t: "ticker_active sample_daemon"
    by (simp add: ticker_active_def sample_daemon_def)
  show ?thesis
    using generation_failure_aborts_cycle [OF HasChanges_generation_failure
        GetDiff_generation_failure generation_failure_result, of changed_env]
      t HasChanges_generation_failure
    by blast
qed


section \<open>Pausing on a push failure\<close>

lemma select_loop_idle:
  "\<not> ticker_active d \<Longrightarrow>
     cycles (snd (select_loop es d)) = 0 \<and> status (fst (select_loop es d)) = status d"
proof (induction es)
  case Nil
  then show ?case by (simp add: cycles_def)
next
  case (Cons e es)
  then show ?case by (cases e) (simp_all add: cycles_def)
qed

lemma push_failure_state:
  assumes "checkAndCommit env d = (d', acts)" and "GitPush \<in> set acts"
    and "git_push env = Some err"
  shows "status d' = StatusError \<and> \<not> ticker_active d' \<and>
         NotifyError (repoName d) err \<in> set acts \<and>
         (ticker d \<noteq> None \<longrightarrow> TickerStop \<in> set acts)"
  using assms
  by (auto simp: checkAndCommit_def Let_def ticker_active_def stop_ticker_def NotifyError_def
      split: sum.splits if_splits option.splits)

lemma checkAndCommit_GitStatus: "GitStatus \<in> set (snd (checkAndCommit env d))"
  by (simp add: checkAndCommit_def Let_def split: sum.split option.split)

lemma cycles_append: "cycles (a @ b) = cycles a + cycles b"
  by (simp add: cycles_def)

lemma cycles_pos: "GitStatus \<in> set a \<Longrightarrow> 0 < cycles a"
  by (simp add: cycles_def filter_empty_conv)

lemma runLoop_first_cycle: "0 < cycles (snd (runLoop env0 es d))"
  using cycles_pos [OF checkAndCommit_GitStatus [of env0 d]]
  by (simp add: runLoop_def Let_def cycles_append)

lemma Start_ticker: "Start None d0 = Returned (d1, a) \<Longrightarrow> ticker_active d1"
  by (auto simp: Start_def Let_def ticker_active_def split: if_splits)

text \<open>
  C1. When the push step of a cycle fails (the cycle ran \<open>git push\<close> and it returned an
  error), the daemon after the cycle has the status "error", which is not "running", and
  no active ticker; the ticker it had was stopped; and the notification titled
  "Autogit Paused: Error in" and the repository name, with the message
  "Merge Conflict or Network Error:" and the error text, was sent. From then on, whatever
  ticks and stop requests follow, the loop runs no cycle and the status stays "error". A
  daemon started anew has an active ticker and runs its first cycle at once.
\<close>

theorem push_failure_pauses_daemon:
  assumes "checkAndCommit env d = (d', acts)" and "GitPush \<in> set acts"
    and "git_push env = Some err"
  shows "status d' = ''error'' \<and> status d' \<noteq> ''running'' \<and> \<not> ticker_active d' \<and>
         (ticker d \<noteq> None \<longrightarrow> TickerStop \<in> set acts) \<and>
         Notify (''Autogit Paused: Error in '' @ repoName d)
                (''Merge Conflict or Network Error: '' @ err) \<in> set acts \<and>
         (\<forall>es. cycles (snd (select_loop es d')) = 0 \<and>
               status (fst (select_loop es d')) = ''error'') \<and>
         (\<forall>d0 d1 a env0 es. Start None d0 = Returned (d1, a) \<longrightarrow>
               ticker_active d1 \<and> 0 < cycles (snd (runLoop env0 es d1)))"
proof -
  note s = push_failure_state [OF assms]
  then have e: "status d' = ''error''" and n: "\<not> ticker_active d'"
    by (simp_all add: StatusError_def)
  have m: "Notify (''Autogit Paused: Error in '' @ repoName d)
                (''Merge Conflict or Network Error: '' @ err) \<in> set acts"
    using s by (simp add: NotifyError_def)
  have i: "\<forall>es. cycles (snd (select_loop es d')) = 0 \<and>
               status (fst (select_loop es d')) = ''error''"
    using select_loop_idle [OF n] e by simp
  have r: "status d' \<noteq> ''running''"
    using e by simp
  from s e r n m i show ?thesis
    using runLoop_first_cycle Start_ticker by blast
qed

theorem push_failure_pauses_daemon_witness:
  "GitPush \<in> set (snd (checkAndCommit push_failure_env sample_daemon)) \<and>
   git_push push_failure_env = Some ''exit status 1'' \<and>
   ticker sample_daemon \<noteq> None \<and>
   status sample_daemon = ''running'' \<and>
   status (fst (checkAndCommit push_failure_env sample_daemon)) = ''error'' \<and>
   \<not> ticker_active (fst (checkAndCommit push_failure_env sample_daemon)) \<and>
   TickerStop \<in> set (snd (checkAndCommit push_failure_env sample_daemon)) \<and>
   Notify ''Autogit Paused: Error in project''
          ''Merge Conflict or Network Error: exit status 1''
      \<in> set (snd (checkAndCommit push_failure_env sample_daemon)) \<and>
   cycles (snd (select_loop [Tick changed_env, Tick changed_env, StopRequest]
      (fst (checkAndCommit push_failure_env sample_daemon)))) = 0 \<and>
   0 < cycles (snd (runLoop changed_env [] sample_daemon))"
proof -
  have p: "git_push push_failure_env = Some ''exit status 1''"
    by (simp add: push_failure_env_def)
  have t: "ticker sample_daemon \<noteq> None" "status sample_daemon = ''running''"
    by (simp_all add: sample_daemon_def StatusRunning_def)
  have c: "checkAndCommit push_failure_env sample_daemon =
      (fst (checkAndCommit push_failure_env sample_daemon),
       snd (checkAndCommit push_failure_env sample_daemon))"
    by simp
  note r = push_failure_pauses_daemon [OF c push_failure_reaches_push p]
  have a: "status (fst (checkAndCommit push_failure_env sample_daemon)) = ''error''"
    "\<not> ticker_active (fst (checkAndCommit push_failure_env sample_daemon))"
    using r by blast+
  have "Notify (''Autogit Paused: Error in '' @ repoName sample_daemon)
          (''Merge Conflict or Network Error: '' @ ''exit status 1'')
      \<in> set (snd (checkAndCommit push_failure_env sample_daemon))"
    using r by blast
  then have m: "Notify ''Autogit Paused: Error in project''
          ''Merge Conflict or Network Error: exit status 1''
      \<in> set (snd (checkAndCommit push_failure_env sample_daemon))"
    by (simp add: sample_daemon_def)
  have b: "TickerStop \<in> set (snd (checkAndCommit push_failure_env sample_daemon))"
    using r t(1) by blast
  have e: "cycles (snd (select_loop [Tick changed_env, Tick changed_env, StopRequest]
      (fst (checkAndCommit push_failure_env sample_daemon)))) = 0"
    using r by blast
  have f: "0 < cycles (snd (runLoop changed_env [] sample_daemon))"
    using r Start_sample by blast
  show ?thesis
    using a b e f m p t push_failure_reaches_push by blast
qed


section \<open>The descriptor and the daemon's status\<close>

text \<open>
  C2. The claim is that the loop updates the daemon descriptor whenever its status
  changes. \<open>SaveDaemonInfo\<close> has one caller, \<open>StartDaemonProcess\<close>, which writes the
  status \<open>running\<close>; \<open>checkAndCommit\<close> assigns \<open>d.status\<close> and writes nothing. After
  a spawn and a cycle whose push fails, the daemon's own status is \<open>error\<close> while the
  descriptor still holds \<open>running\<close>, and \<open>status\<close> prints \<open>running\<close> for it.
\<close>

theorem descriptor_not_updated_on_status_change:
  "StartDaemonProcess sample_spawn ''/home/dev/project'' empty_store = (None, running_store) \<and>
   GetStatus sample_daemon = StatusRunning \<and>
   GetStatus (proc (fst (daemon_cycle push_failure_env
      \<lparr>disk = running_store, proc = sample_daemon\<rparr>))) = StatusError \<and>
   LoadDaemonInfo (disk (fst (daemon_cycle push_failure_env
      \<lparr>disk = running_store, proc = sample_daemon\<rparr>))) =
      Inr (Some \<lparr>PID = 4242, RepoPath = ''/home/dev/project'', Status = StatusRunning\<rparr>) \<and>
   printed (statusCmd live_table (disk (fst (daemon_cycle push_failure_env
      \<lparr>disk = running_store, proc = sample_daemon\<rparr>)))) =
      [''Status: running'', ''PID: 4242'', ''Repository: /home/dev/project'']"
proof -
  have 1: "StartDaemonProcess sample_spawn ''/home/dev/project'' empty_store = (None, running_store)"
    by (simp add: StartDaemonProcess_def sample_spawn_def SaveDaemonInfo_def empty_store_def
        running_store_def sample_info_def)
  have 2: "printed (statusCmd live_table running_store) =
      [''Status: running'', ''PID: 4242'', ''Repository: /home/dev/project'']"
    by (simp add: statusCmd_def LoadDaemonInfo_def running_store_def sample_info_def
        isProcessRunning_def live_table_def StatusRunning_def Itoa_def digits.simps)
  have 3: "GetStatus sample_daemon = StatusRunning"
    by (simp add: GetStatus_def sample_daemon_def)
  have 4: "LoadDaemonInfo running_store =
      Inr (Some \<lparr>PID = 4242, RepoPath = ''/home/dev/project'', Status = StatusRunning\<rparr>)"
    by (simp add: LoadDaemonInfo_def running_store_def sample_info_def)
  show ?thesis
    using 1 2 3 4 push_failure_status
    by (simp add: daemon_cycle_def Let_def GetStatus_def)
qed


section \<open>Strings that pass the JSON encoder unchanged\<close>

lemma rune_need_le: "rune_need x \<le> 4"
  by (simp add: rune_need_def)

lemma rune_size_le: "rune_size s \<le> length s"
proof (cases s)
  case Nil
  then show ?thesis by (simp add: rune_size_def)
next
  case (Cons b0 r)
  then show ?thesis
    using rune_need_le [of "of_char b0"]
    by (cases r) (auto simp: rune_size_def Let_def Suc_le_eq)
qed

lemma rune_size_ascii: "(of_char c :: nat) < 0x80 \<Longrightarrow> rune_size (c # s) = 1"
  by (simp add: rune_size_def rune_need_def)

lemma json_text_Nil: "json_text [] = []"
  by (simp add: json_text.simps)

lemma json_text_ascii_prefix: "ascii a \<Longrightarrow> json_text (a @ b) = a @ json_text b"
proof (induction a)
  case Nil
  then show ?case by simp
next
  case (Cons c a)
  then have "rune_size ((c # a) @ b) = 1" by (simp add: ascii_def rune_size_ascii)
  with Cons show ?case
    by (subst json_text.simps) (simp add: ascii_def)
qed

lemma json_text_ascii: "ascii a \<Longrightarrow> json_text a = a"
  using json_text_ascii_prefix [of a "[]"] by (simp add: json_text_Nil)

text \<open>
  What follows a string does not change how it decodes when it starts with an ASCII
  byte: a sequence cut short at the end of the string stays ill-formed.
\<close>

lemma rune_size_append:
  assumes "s \<noteq> []" and "(of_char c :: nat) < 0x80"
  shows "rune_size (s @ c # m) = rune_size s"
proof -
  obtain b0 r where s: "s = b0 # r" using assms(1) by (cases s) auto
  have w: "\<And>lo. 0x80 \<le> lo \<Longrightarrow> \<not> within lo hi c" for hi
    using assms(2) by (simp add: within_def)
  have w1: "\<not> within (second_lo x) hi c" for x hi
    by (rule w) (simp add: second_lo_def)
  have w2: "\<not> within 0x80 hi c" for hi
    by (rule w) simp
  consider "r = []" | b1 where "r = [b1]" | b1 b2 where "r = [b1, b2]"
    | b1 b2 b3 t where "r = b1 # b2 # b3 # t"
    by (cases r rule: list.exhaust; (cases "tl r"; (cases "tl (tl r)"; auto)))
  then show ?thesis
  proof cases
    case 1
    then show ?thesis using s w1 by (simp add: rune_size_def Let_def)
  next
    case 2
    then show ?thesis using s w2 by (simp add: rune_size_def Let_def)
  next
    case 3
    then show ?thesis using s w2 by (simp add: rune_size_def Let_def)
  next
    case 4
    then show ?thesis
      using s rune_need_le [of "of_char b0"] by (simp add: rune_size_def Let_def)
  qed
qed

lemma json_text_append:
  assumes "(of_char c :: nat) < 0x80"
  shows "json_text (s @ c # m) = json_text s @ json_text (c # m)"
proof (induction s rule: json_text.induct)
  case (1 s)
  show ?case
  proof (cases "s = []")
    case True
    then show ?thesis by (simp add: json_text_Nil)
  next
    case False
    note r = rune_size_append [OF False assms, of m]
    show ?thesis
    proof (cases "rune_size s = 0")
      case True
      with False r "1.IH"(1) show ?thesis
        by (subst json_text.simps, subst (2) json_text.simps) simp
    next
      case n: False
      have "rune_size s \<le> length s" by (rule rune_size_le)
      with False n r "1.IH"(2) show ?thesis
        by (subst json_text.simps, subst (2) json_text.simps) simp
    qed
  qed
qed

lemma json_text_valid: "valid_utf8 s \<Longrightarrow> json_text s = s"
proof (induction s rule: json_text.induct)
  case (1 s)
  show ?case
  proof (cases "s = []")
    case True
    then show ?thesis by (simp add: json_text_Nil)
  next
    case False
    with "1.prems" have n: "rune_size s \<noteq> 0" and v: "valid_utf8 (drop (rune_size s) s)"
      by (subst (asm) valid_utf8.simps, simp split: if_splits)+
    with False "1.IH"(2) show ?thesis
      by (subst json_text.simps) simp
  qed
qed

lemma ascii_valid: "ascii s \<Longrightarrow> valid_utf8 s"
proof (induction s)
  case Nil
  then show ?case by (simp add: valid_utf8.simps)
next
  case (Cons c s)
  then have "rune_size (c # s) = 1" by (simp add: ascii_def rune_size_ascii)
  with Cons show ?case by (subst valid_utf8.simps) (simp add: ascii_def)
qed

lemma ascii_prompt_head: "ascii (SystemPrompt @ diff_heading)"
  by (simp add: ascii_def SystemPrompt_def diff_heading_def newline_def)

lemma truncation_marker_text: "truncation_marker = CHR 0x0A # ''... (truncated)''"
  by (simp add: truncation_marker_def newline_def)

lemma json_text_prompt:
  "json_text (SystemPrompt @ diff_heading @ d) = SystemPrompt @ diff_heading @ json_text d"
  using json_text_ascii_prefix [OF ascii_prompt_head, of d] by simp

lemma json_text_truncated:
  "json_text (t @ truncation_marker) = json_text t @ CHR 0x0A # ''... (truncated)''"
proof -
  have "ascii (CHR 0x0A # ''... (truncated)'')" by (simp add: ascii_def)
  then have "json_text (CHR 0x0A # ''... (truncated)'') = CHR 0x0A # ''... (truncated)''"
    by (rule json_text_ascii)
  then show ?thesis
    using json_text_append [of "CHR 0x0A" t "''... (truncated)''"]
    by (simp add: truncation_marker_text)
qed

lemma transmitted_prompt:
  assumes "provider_key p \<noteq> []"
  shows "transmitted (GenerateCommitMsg p be diff) =
           [SystemPrompt @ diff_heading @
            json_text (if length diff > 100000 then take 100000 diff @ truncation_marker
                       else diff)]"
  using assms
  by (cases p)
     (simp_all add: transmitted_def Gemini_GenerateCommitMsg_def OpenAI_GenerateCommitMsg_def
        Anthropic_GenerateCommitMsg_def Let_def json_text_prompt)


section \<open>Truncation of the diff\<close>

text \<open>
  C5, as stated: a diff at or below 100000 bytes is transmitted unmodified. The diff
  travels in a JSON body, and the encoder replaces every byte that is not part of a
  well-formed UTF-8 sequence by U+FFFD: of the seven bytes of a diff line in ISO 8859-1,
  \<open>+caf\<close>, the byte E9 and a line feed, the backend is sent nine, with the bytes EF BF BD
  in the place of E9.
\<close>

theorem diff_transmission_counterexample:
  "length latin1_diff \<le> 100000 \<and>
   transmitted (GenerateCommitMsg (GeminiProvider ''AIzaSySampleKey0123456789'')
        (\<lambda>r. NoCandidate) latin1_diff) =
     [SystemPrompt @ diff_heading @ ''+caf'' @ [CHR 0xEF, CHR 0xBF, CHR 0xBD, CHR 0x0A]] \<and>
   transmitted (GenerateCommitMsg (GeminiProvider ''AIzaSySampleKey0123456789'')
        (\<lambda>r. NoCandidate) latin1_diff) \<noteq>
     [SystemPrompt @ diff_heading @ latin1_diff]"
proof -
  have k: "provider_key (GeminiProvider ''AIzaSySampleKey0123456789'') \<noteq> []" by simp
  have j: "json_text latin1_diff = ''+caf'' @ [CHR 0xEF, CHR 0xBF, CHR 0xBD, CHR 0x0A]"
    by (simp add: latin1_diff_def json_text.simps rune_size_def rune_need_def
        replacement_char_def)
  show ?thesis
    using transmitted_prompt [OF k, of "\<lambda>r. NoCandidate" latin1_diff] j
    by (simp add: latin1_diff_def)
qed

text \<open>
  C5, amended. For each of the three providers, with an API key set, one request is
  sent. For a diff longer than 100000 bytes the text it transmits after the system
  prompt and the heading is the first 100000 bytes of the diff followed by the marker
  "\n... (truncated)", and for a diff of at most 100000 bytes it is the diff, in both
  cases with every byte that is not part of a well-formed UTF-8 sequence transmitted as
  U+FFFD. So where those first 100000 bytes are well-formed UTF-8 they are followed by
  the marker as they are, and a diff of at most 100000 bytes that is well-formed UTF-8
  is transmitted unmodified.
\<close>

theorem diff_truncated_before_transmission:
  assumes "provider_key p \<noteq> []"
  shows "(length diff > 100000 \<longrightarrow>
            transmitted (GenerateCommitMsg p be diff) =
              [SystemPrompt @ diff_heading @
               json_text (take 100000 diff) @ CHR 0x0A # ''... (truncated)'']) \<and>
         (length diff \<le> 100000 \<longrightarrow>
            transmitted (GenerateCommitMsg p be diff) =
              [SystemPrompt @ diff_heading @ json_text diff]) \<and>
         (length diff > 100000 \<and> valid_utf8 (take 100000 diff) \<longrightarrow>
            transmitted (GenerateCommitMsg p be diff) =
              [SystemPrompt @ diff_heading @
               take 100000 diff @ CHR 0x0A # ''... (truncated)'']) \<and>
         (length diff \<le> 100000 \<and> valid_utf8 diff \<longrightarrow>
            transmitted (GenerateCommitMsg p be diff) =
              [SystemPrompt @ diff_heading @ diff])"
  using transmitted_prompt [OF assms, of be diff]
  by (simp add: json_text_truncated json_text_valid)

theorem diff_truncated_before_transmission_witness:
  "provider_key (AnthropicProvider ''sk-ant-sample'') \<noteq> [] \<and>
   length (replicate 100001 CHR ''x'') > 100000 \<and>
   valid_utf8 (take 100000 (replicate 100001 CHR ''x'')) \<and>
   transmitted (GenerateCommitMsg (AnthropicProvider ''sk-ant-sample'') (\<lambda>r. NoCandidate)
        (replicate 100001 CHR ''x'')) =
     [SystemPrompt @ diff_heading @
      take 100000 (replicate 100001 CHR ''x'') @ CHR 0x0A # ''... (truncated)''] \<and>
   length ''+added line'' \<le> 100000 \<and>
   valid_utf8 ''+added line'' \<and>
   transmitted (GenerateCommitMsg (GeminiProvider ''AIzaSySampleKey0123456789'')
        (\<lambda>r. NoCandidate) ''+added line'') =
     [SystemPrompt @ diff_heading @ ''+added line'']"
proof -
  have k: "provider_key (AnthropicProvider ''sk-ant-sample'') \<noteq> []"
    "provider_key (GeminiProvider ''AIzaSySampleKey0123456789'') \<noteq> []"
    by simp_all
  have l: "length (replicate 100001 CHR ''x'') > 100000" "length ''+added line'' \<le> 100000"
    by simp_all
  have "ascii (take 100000 (replicate 100001 CHR ''x''))"
    by (simp add: ascii_def list_all_iff)
  then have v1: "valid_utf8 (take 100000 (replicate 100001 CHR ''x''))"
    by (rule ascii_valid)
  have "ascii ''+added line''" by (simp add: ascii_def)
  then have v2: "valid_utf8 ''+added line''" by (rule ascii_valid)
  note a = diff_truncated_before_transmission
        [OF k(1), of "replicate 100001 CHR ''x''" "\<lambda>r. NoCandidate"]
  note b = diff_truncated_before_transmission
        [OF k(2), of "''+added line''" "\<lambda>r. NoCandidate"]
  have 1: "transmitted (GenerateCommitMsg (AnthropicProvider ''sk-ant-sample'')
        (\<lambda>r. NoCandidate) (replicate 100001 CHR ''x'')) =
     [SystemPrompt @ diff_heading @
      take 100000 (replicate 100001 CHR ''x'') @ CHR 0x0A # ''... (truncated)'']"
    using a l(1) v1 by blast
  have 2: "transmitted (GenerateCommitMsg (GeminiProvider ''AIzaSySampleKey0123456789'')
        (\<lambda>r. NoCandidate) ''+added line'') =
     [SystemPrompt @ diff_heading @ ''+added line'']"
    using b l(2) v2 by blast
  show ?thesis using k l v1 v2 1 2 by blast
qed


section \<open>Detection and diff\<close>

lemma leading_prefix:
  assumes "leading seqs s \<noteq> 0"
  shows "take (leading seqs s) s \<in> set seqs"
proof (cases "find (\<lambda>p. p \<noteq> [] \<and> take (length p) s = p) seqs")
  case None
  with assms show ?thesis by (simp add: leading_def)
next
  case (Some p)
  then have "p \<in> set seqs" "take (length p) s = p"
    by (auto simp: find_Some_iff)
  with Some show ?thesis by (simp add: leading_def)
qed

text \<open>A byte that occurs in none of the sequences survives the trimming.\<close>

lemma trim_leading_keeps:
  "\<forall>p \<in> set seqs. c \<notin> set p \<Longrightarrow> c \<in> set s \<Longrightarrow> c \<in> set (trim_leading seqs s)"
proof (induction seqs s rule: trim_leading.induct)
  case (1 seqs s)
  show ?case
  proof (cases "leading seqs s = 0")
    case True
    with "1.prems" show ?thesis by (simp add: trim_leading.simps)
  next
    case False
    then have "take (leading seqs s) s \<in> set seqs" by (rule leading_prefix)
    with "1.prems" have "c \<notin> set (take (leading seqs s) s)" by blast
    moreover have "set s = set (take (leading seqs s) s) \<union> set (drop (leading seqs s) s)"
      by (metis append_take_drop_id set_append)
    ultimately have "c \<in> set (drop (leading seqs s) s)"
      using "1.prems" by blast
    with False "1.IH" "1.prems" have "c \<in> set (trim_leading seqs (drop (leading seqs s) s))"
      by blast
    with False show ?thesis by (subst trim_leading.simps) simp
  qed
qed

lemma TrimSpace_keeps:
  assumes "c \<notin> space_bytes" and "c \<in> set s"
  shows "c \<in> set (TrimSpace s)"
proof -
  have a: "\<forall>p \<in> set space_runes. c \<notin> set p"
    using assms(1) by (auto simp: space_bytes_def)
  then have b: "\<forall>p \<in> set (map rev space_runes). c \<notin> set p"
    by auto
  have "c \<in> set (trim_leading space_runes s)"
    using a assms(2) by (rule trim_leading_keeps)
  then have "c \<in> set (rev (trim_leading space_runes s))" by simp
  with b have "c \<in> set (trim_leading (map rev space_runes) (rev (trim_leading space_runes s)))"
    by (rule trim_leading_keeps)
  then show ?thesis by (simp add: TrimSpace_def)
qed

lemma TrimSpace_empty: "TrimSpace [] = []"
  by (simp add: TrimSpace_def trim_leading.simps leading_def space_runes_def)

lemma status_letters_not_space: "CHR ''M'' \<notin> space_bytes" "CHR ''?'' \<notin> space_bytes"
  by (simp_all add: space_bytes_def space_runes_def)

lemma status_modified: "modified wt \<noteq> [] \<Longrightarrow> CHR ''M'' \<in> set (status_porcelain wt)"
  by (cases "modified wt") (auto simp: status_porcelain_def)

lemma status_untracked: "untracked wt \<noteq> [] \<Longrightarrow> CHR ''?'' \<in> set (status_porcelain wt)"
  by (cases "untracked wt") (auto simp: status_porcelain_def)

text \<open>
  Detection answers true exactly when the working tree has a modified tracked file or
  an untracked file.
\<close>

lemma HasChanges_worktree:
  "HasChanges (Inr (status_porcelain wt)) = Inr (modified wt \<noteq> [] \<or> untracked wt \<noteq> [])"
proof (cases "modified wt \<noteq> [] \<or> untracked wt \<noteq> []")
  case True
  then have "\<exists>c. c \<in> set (TrimSpace (status_porcelain wt))"
    using TrimSpace_keeps [OF status_letters_not_space(1) status_modified]
      TrimSpace_keeps [OF status_letters_not_space(2) status_untracked] by blast
  then have "TrimSpace (status_porcelain wt) \<noteq> []" by auto
  with True show ?thesis by (simp add: HasChanges_def)
next
  case False
  then have "status_porcelain wt = []" by (simp add: status_porcelain_def)
  with False show ?thesis by (simp add: HasChanges_def TrimSpace_empty)
qed

text \<open>The diff is the output of \<open>git diff\<close>: it is empty exactly when no tracked file is modified.\<close>

lemma GetDiff_worktree:
  "GetDiff (Inr (diff_patches wt)) = Inr (diff_patches wt) \<and>
   (diff_patches wt \<noteq> [] \<longleftrightarrow> modified wt \<noteq> [])"
  by (cases "modified wt") (auto simp: GetDiff_def diff_patches_def)

lemma cycle_generates_once:
  assumes "HasChanges (git_status env) = Inr True" and "GetDiff (git_diff env) = Inr diff"
  shows "filter is_Generate (snd (checkAndCommit env d)) = [Generate diff]"
  using assms
  by (simp add: checkAndCommit_def Let_def is_Generate_def NotifyError_def NotifySuccess_def
      split: sum.split option.split)

text \<open>
  The scenario of the claim holds: with one modified tracked file and no untracked file,
  detection answers true, the diff is not empty, and the cycle calls the provider once.
\<close>

lemma one_modified_scenario:
  assumes "modified wt = [m]" and "untracked wt = []"
  shows "HasChanges (git_status (in_worktree wt env)) = Inr True \<and>
     GetDiff (git_diff (in_worktree wt env)) = Inr (diff_patches wt) \<and>
     diff_patches wt \<noteq> [] \<and>
     filter is_Generate (snd (checkAndCommit (in_worktree wt env) d)) =
       [Generate (diff_patches wt)]"
proof -
  have h: "HasChanges (git_status (in_worktree wt env)) = Inr True"
    using assms by (simp add: in_worktree_def HasChanges_worktree)
  have g: "GetDiff (git_diff (in_worktree wt env)) = Inr (diff_patches wt)"
    by (simp add: in_worktree_def GetDiff_def)
  have n: "diff_patches wt \<noteq> []"
    using GetDiff_worktree [of wt] assms by simp
  show ?thesis using h g n cycle_generates_once [OF h g] by simp
qed

lemma one_modified_cycle:
  "HasChanges (git_status (in_worktree one_modified changed_env)) = Inr True \<and>
   diff_patches one_modified \<noteq> [] \<and>
   filter is_Generate (snd (checkAndCommit (in_worktree one_modified changed_env) sample_daemon))
     = [Generate (diff_patches one_modified)]"
  using one_modified_scenario [of one_modified _ changed_env sample_daemon]
  by (simp add: one_modified_def)

text \<open>
  C7. The claim is that detection counts tracked changes and untracked files and that the
  diff step then retrieves the diff of those changes. Detection does count both, and
  the scenario with one modified tracked file holds. The diff step runs \<open>git diff\<close>,
  which leaves untracked files out: in a working tree whose only change is the untracked
  file \<open>notes.txt\<close>, detection answers true, the diff that is retrieved is empty, and
  the provider is called once, with the empty diff.
\<close>

theorem untracked_changes_have_no_diff:
  "untracked only_untracked = [''notes.txt''] \<and>
   HasChanges (git_status (in_worktree only_untracked changed_env)) = Inr True \<and>
   GetDiff (git_diff (in_worktree only_untracked changed_env)) = Inr [] \<and>
   filter is_Generate (snd (checkAndCommit (in_worktree only_untracked changed_env) sample_daemon))
     = [Generate []]"
proof -
  have h: "HasChanges (git_status (in_worktree only_untracked changed_env)) = Inr True"
    by (simp add: in_worktree_def HasChanges_worktree only_untracked_def)
  have g: "GetDiff (git_diff (in_worktree only_untracked changed_env)) = Inr []"
    by (simp add: in_worktree_def GetDiff_def diff_patches_def only_untracked_def)
  show ?thesis
    using h g cycle_generates_once [OF h g] by (simp add: only_untracked_def)
qed


section \<open>Control surface\<close>

text \<open>
  C8. \<open>status\<close> prints "Status: Not running" when the descriptor is absent; when the
  descriptor is present and its process is not running it prints the line
  "Status: Process not found (may have crashed)" and no line "Status: running"; when the
  process is running it prints the stored status, the process id and the path. In every
  case it returns no error, leaves the store as it found it, and sends no signal but the
  probe (signal 0).
\<close>

theorem statusCmd_reports:
  "(daemon_json st = Absent \<longrightarrow> printed (statusCmd ps st) = [''Status: Not running'']) \<and>
   (\<forall>info. daemon_json st = Holds info \<and> \<not> isProcessRunning ps (PID info) \<longrightarrow>
      printed (statusCmd ps st) = [''Status: Process not found (may have crashed)''] \<and>
      ''Status: '' @ StatusRunning \<notin> set (printed (statusCmd ps st))) \<and>
   (\<forall>info. daemon_json st = Holds info \<and> isProcessRunning ps (PID info) \<longrightarrow>
      printed (statusCmd ps st) =
        [''Status: '' @ Status info, ''PID: '' @ Itoa (PID info),
         ''Repository: '' @ RepoPath info]) \<and>
   left (statusCmd ps st) = st \<and> failure (statusCmd ps st) = None \<and>
   (\<forall>g \<in> set (signals (statusCmd ps st)). snd g = Signal0)"
  by (auto simp: statusCmd_def LoadDaemonInfo_def StatusRunning_def probe_def
      split: stored_file.splits option.splits)

theorem statusCmd_reports_witness:
  "daemon_json empty_store = Absent \<and>
   printed (statusCmd live_table empty_store) = [''Status: Not running''] \<and>
   daemon_json running_store = Holds sample_info \<and>
   \<not> isProcessRunning dead_table (PID sample_info) \<and>
   printed (statusCmd dead_table running_store) =
     [''Status: Process not found (may have crashed)''] \<and>
   isProcessRunning live_table (PID sample_info) \<and>
   printed (statusCmd live_table running_store) =
     [''Status: '' @ Status sample_info, ''PID: '' @ Itoa (PID sample_info),
      ''Repository: '' @ RepoPath sample_info] \<and>
   left (statusCmd dead_table running_store) = running_store"
proof -
  have a: "daemon_json empty_store = Absent" by (simp add: empty_store_def)
  have b: "daemon_json running_store = Holds sample_info" by (simp add: running_store_def)
  have c: "\<not> isProcessRunning dead_table (PID sample_info)"
    using dead_4242 by (simp add: sample_info_def)
  have d: "isProcessRunning live_table (PID sample_info)"
    using live_4242 by (simp add: sample_info_def)
  have 1: "printed (statusCmd live_table empty_store) = [''Status: Not running'']"
    using statusCmd_reports [of empty_store live_table] a by blast
  have 2: "printed (statusCmd dead_table running_store) =
      [''Status: Process not found (may have crashed)'']"
    using statusCmd_reports [of running_store dead_table] b c by blast
  have 3: "printed (statusCmd live_table running_store) =
     [''Status: '' @ Status sample_info, ''PID: '' @ Itoa (PID sample_info),
      ''Repository: '' @ RepoPath sample_info]"
    using statusCmd_reports [of running_store live_table] b d by blast
  have 4: "left (statusCmd dead_table running_store) = running_store"
    using statusCmd_reports [of running_store dead_table] by blast
  show ?thesis using a b c d 1 2 3 4 by blast
qed

text \<open>
  C9. \<open>pause\<close> with no descriptor fails with "no daemon is running", prints nothing,
  sends no signal and leaves the store as it is, so no descriptor appears. With a
  descriptor whose process is not running it deletes the descriptor and fails with
  "daemon process not found (may have crashed)". With a running process it sends
  SIGTERM to it and, the signal delivered, deletes the descriptor and reports success.
  It sends SIGTERM to running processes only.
\<close>

theorem pauseCmd_cases:
  "(daemon_json st = Absent \<longrightarrow>
      failure (pauseCmd ps st) = Some ''no daemon is running'' \<and>
      left (pauseCmd ps st) = st \<and> signals (pauseCmd ps st) = [] \<and>
      printed (pauseCmd ps st) = []) \<and>
   (\<forall>info. daemon_json st = Holds info \<and> \<not> isProcessRunning ps (PID info) \<longrightarrow>
      failure (pauseCmd ps st) = Some ''daemon process not found (may have crashed)'' \<and>
      daemon_json (left (pauseCmd ps st)) = Absent \<and>
      printed (pauseCmd ps st) = []) \<and>
   (\<forall>info. daemon_json st = Holds info \<and> isProcessRunning ps (PID info) \<longrightarrow>
      (PID info, SIGTERM) \<in> set (signals (pauseCmd ps st)) \<and>
      (send_signal ps (PID info) SIGTERM = None \<longrightarrow>
         failure (pauseCmd ps st) = None \<and>
         daemon_json (left (pauseCmd ps st)) = Absent \<and>
         printed (pauseCmd ps st) = [stopped_message])) \<and>
   (\<forall>pid. (pid, SIGTERM) \<in> set (signals (pauseCmd ps st)) \<longrightarrow> isProcessRunning ps pid)"
  by (auto simp: pauseCmd_def LoadDaemonInfo_def DeleteDaemonInfo_def probe_def
      isProcessRunning_def
      split: stored_file.splits option.splits if_splits)

theorem pauseCmd_cases_witness:
  "daemon_json empty_store = Absent \<and>
   failure (pauseCmd live_table empty_store) = Some ''no daemon is running'' \<and>
   left (pauseCmd live_table empty_store) = empty_store \<and>
   daemon_json running_store = Holds sample_info \<and>
   \<not> isProcessRunning dead_table (PID sample_info) \<and>
   failure (pauseCmd dead_table running_store) =
     Some ''daemon process not found (may have crashed)'' \<and>
   daemon_json (left (pauseCmd dead_table running_store)) = Absent \<and>
   isProcessRunning live_table (PID sample_info) \<and>
   send_signal live_table (PID sample_info) SIGTERM = None \<and>
   (PID sample_info, SIGTERM) \<in> set (signals (pauseCmd live_table running_store)) \<and>
   failure (pauseCmd live_table running_store) = None \<and>
   daemon_json (left (pauseCmd live_table running_store)) = Absent"
proof -
  have a: "daemon_json empty_store = Absent" by (simp add: empty_store_def)
  have b: "daemon_json running_store = Holds sample_info" by (simp add: running_store_def)
  have c: "\<not> isProcessRunning dead_table (PID sample_info)"
    using dead_4242 by (simp add: sample_info_def)
  have d: "isProcessRunning live_table (PID sample_info)"
    using live_4242 by (simp add: sample_info_def)
  have g: "send_signal live_table (PID sample_info) SIGTERM = None"
    by (simp add: live_table_def sample_info_def)
  have 1: "failure (pauseCmd live_table empty_store) = Some ''no daemon is running''"
    "left (pauseCmd live_table empty_store) = empty_store"
    using pauseCmd_cases [of empty_store live_table] a by blast+
  have 2: "failure (pauseCmd dead_table running_store) =
     Some ''daemon process not found (may have crashed)''"
    "daemon_json (left (pauseCmd dead_table running_store)) = Absent"
    using pauseCmd_cases [of running_store dead_table] b c by blast+
  have 3: "(PID sample_info, SIGTERM) \<in> set (signals (pauseCmd live_table running_store))"
    "failure (pauseCmd live_table running_store) = None"
    "daemon_json (left (pauseCmd live_table running_store)) = Absent"
    using pauseCmd_cases [of running_store live_table] b d g by blast+
  show ?thesis using a b c d g 1 2 3 by blast
qed


section \<open>Round trip of the configuration\<close>

lemma env_keys:
  "env_key ''ai_provider'' = ''AUTOGIT_AI_PROVIDER''"
  "env_key ''api_key'' = ''AUTOGIT_API_KEY''"
  "env_key ''base_url'' = ''AUTOGIT_BASE_URL''"
  "env_key ''check_interval_minutes'' = ''AUTOGIT_CHECK_INTERVAL_MINUTES''"
  "env_key ''root_path'' = ''AUTOGIT_ROOT_PATH''"
  by (simp_all add: env_key_def to_upper_def)

lemma viper_get_unset:
  "unset getenv (env_key k) \<Longrightarrow> map_of obj k = Some v \<Longrightarrow> viper_get getenv obj k = Some v"
  by (auto simp: viper_get_def unset_def split: option.splits)

lemma viper_get_no_env:
  "map_of obj k = Some v \<Longrightarrow> viper_get no_env obj k = Some v"
  by (rule viper_get_unset) (simp_all add: unset_def no_env_def)

text \<open>An integer of magnitude at most \<open>2 ^ 53\<close> is a \<open>float64\<close>, and comes back as it went.\<close>

lemma halvings_small: "a < 2 ^ 53 \<Longrightarrow> halvings a = 0"
  by (subst halvings.simps) simp

lemma halvings_2_53: "halvings 9007199254740992 = 1"
  by (subst halvings.simps) (simp add: halvings_small)

lemma float64_of_int_2_53:
  "float64_of_int 9007199254740992 = 9007199254740992"
  "float64_of_int (- 9007199254740992) = - 9007199254740992"
  by (simp_all add: float64_of_int_def halvings_2_53)

lemma float64_of_int_exact:
  assumes "\<bar>n\<bar> \<le> 2 ^ 53"
  shows "float64_of_int n = n"
proof (cases "\<bar>n\<bar> < 2 ^ 53")
  case True
  then have "nat \<bar>n\<bar> < 2 ^ 53" by (simp add: nat_less_iff)
  then have "halvings (nat \<bar>n\<bar>) = 0" by (rule halvings_small)
  then show ?thesis by (simp add: float64_of_int_def)
next
  case False
  with assms have "n = 9007199254740992 \<or> n = - 9007199254740992" by auto
  then show ?thesis
    using float64_of_int_2_53 by blast
qed

lemma int64_of_float_sint:
  assumes "\<bar>sint (w :: 64 word)\<bar> \<le> 2 ^ 53"
  shows "int64_of_float (float64_of_int (sint w)) = w"
proof -
  have "- (2 ^ 63) \<le> sint w \<and> sint w < 2 ^ 63"
    using assms by auto
  then show ?thesis
    by (simp add: float64_of_int_exact [OF assms] int64_of_float_def)
qed

lemma sample_strings_json:
  "json_text ''openai'' = ''openai''"
  "json_text ''sk-saved-key'' = ''sk-saved-key''"
  "json_text ''https://api.openai.com/v1'' = ''https://api.openai.com/v1''"
  "json_text ''/home/dev/project'' = ''/home/dev/project''"
  by (rule json_text_ascii, simp add: ascii_def)+

lemma binary_key_json:
  "json_text binary_key = [CHR ''k'', CHR 0xEF, CHR 0xBF, CHR 0xBD, CHR ''z'']"
  by (simp add: binary_key_def json_text.simps rune_size_def rune_need_def
      replacement_char_def)

lemma halvings_above_2_53: "halvings 9007199254740993 = 1"
  by (subst halvings.simps) (simp add: halvings_small)

lemma float64_above_2_53: "float64_of_int 9007199254740993 = 9007199254740992"
  by (simp add: float64_of_int_def halvings_above_2_53)

lemma float64_sample: "float64_of_int 15 = 15"
  by (simp add: float64_of_int_def halvings_small)

text \<open>
  C10, as stated: saving any configuration and reloading it yields equal provider,
  API key, base URL and interval. Three configurations for which it does not. With
  \<open>AUTOGIT_API_KEY\<close> set, the key that is loaded is the one of the environment, not
  the one that was saved. With no variable set, the interval 9007199254740993 is
  reloaded as 9007199254740992, since viper reads the number as a \<open>float64\<close>; and an
  API key with the byte FF, which is not UTF-8, is reloaded with U+FFFD in its place,
  since that is what the encoder wrote.
\<close>

theorem config_round_trip_counterexample:
  "fst (LoadConfig (\<lambda>s. None) key_in_env (snd (SaveConfig sample_config empty_store))) =
     Inr (sample_config\<lparr>APIKey := ''sk-from-environment''\<rparr>) \<and>
   APIKey sample_config = ''sk-saved-key'' \<and>
   fst (LoadConfig (\<lambda>s. None) no_env
     (snd (SaveConfig (sample_config\<lparr>CheckIntervalMinutes := 9007199254740993\<rparr>) empty_store))) =
     Inr (sample_config\<lparr>CheckIntervalMinutes := 9007199254740992\<rparr>) \<and>
   fst (LoadConfig (\<lambda>s. None) no_env
     (snd (SaveConfig (sample_config\<lparr>APIKey := binary_key\<rparr>) empty_store))) =
     Inr (sample_config\<lparr>APIKey := [CHR ''k'', CHR 0xEF, CHR 0xBF, CHR 0xBD, CHR ''z'']\<rparr>) \<and>
   binary_key \<noteq> [CHR ''k'', CHR 0xEF, CHR 0xBF, CHR 0xBD, CHR ''z'']"
proof -
  have 1: "fst (LoadConfig (\<lambda>s. None) key_in_env (snd (SaveConfig sample_config empty_store))) =
     Inr (sample_config\<lparr>APIKey := ''sk-from-environment''\<rparr>)"
    by (simp add: LoadConfig_def SaveConfig_def sample_config_def empty_store_def
        key_in_env_def viper_get_def viper_defaults_def env_key_def to_upper_def
        decode_int_def decode_string_def sample_strings_json float64_sample
        int64_of_float_def)
  have 2: "fst (LoadConfig (\<lambda>s. None) no_env
     (snd (SaveConfig (sample_config\<lparr>CheckIntervalMinutes := 9007199254740993\<rparr>) empty_store))) =
     Inr (sample_config\<lparr>CheckIntervalMinutes := 9007199254740992\<rparr>)"
    by (simp add: LoadConfig_def SaveConfig_def sample_config_def empty_store_def
        viper_get_no_env decode_int_def decode_string_def sample_strings_json
        float64_above_2_53 int64_of_float_def)
  have 3: "fst (LoadConfig (\<lambda>s. None) no_env
     (snd (SaveConfig (sample_config\<lparr>APIKey := binary_key\<rparr>) empty_store))) =
     Inr (sample_config\<lparr>APIKey := [CHR ''k'', CHR 0xEF, CHR 0xBF, CHR 0xBD, CHR ''z'']\<rparr>)"
    by (simp add: LoadConfig_def SaveConfig_def sample_config_def empty_store_def
        viper_get_no_env decode_int_def decode_string_def sample_strings_json
        binary_key_json float64_sample int64_of_float_def)
  have 4: "APIKey sample_config = ''sk-saved-key''"
    by (simp add: sample_config_def)
  have 5: "binary_key \<noteq> [CHR ''k'', CHR 0xEF, CHR 0xBF, CHR 0xBD, CHR ''z'']"
    by (simp add: binary_key_def)
  show ?thesis using 1 2 3 4 5 by blast
qed

text \<open>
  C10, amended: for a configuration whose provider, API key and base URL are
  well-formed UTF-8 and whose interval has a magnitude of at most \<open>2 ^ 53\<close>, when none
  of the environment variables \<open>AUTOGIT_AI_PROVIDER\<close>, \<open>AUTOGIT_API_KEY\<close>,
  \<open>AUTOGIT_BASE_URL\<close> and \<open>AUTOGIT_CHECK_INTERVAL_MINUTES\<close> is set to a non-empty
  value, saving the configuration and reloading it succeeds and yields equal provider,
  API key, base URL and interval.
\<close>

theorem config_round_trip_without_env:
  assumes "unset getenv ''AUTOGIT_AI_PROVIDER''"
    and "unset getenv ''AUTOGIT_API_KEY''"
    and "unset getenv ''AUTOGIT_BASE_URL''"
    and "unset getenv ''AUTOGIT_CHECK_INTERVAL_MINUTES''"
    and "valid_utf8 (AIProvider cfg)"
    and "valid_utf8 (APIKey cfg)"
    and "valid_utf8 (BaseURL cfg)"
    and "\<bar>sint (CheckIntervalMinutes cfg)\<bar> \<le> 2 ^ 53"
  shows "\<exists>c. fst (LoadConfig ParseInt getenv (snd (SaveConfig cfg st))) = Inr c \<and>
             AIProvider c = AIProvider cfg \<and> APIKey c = APIKey cfg \<and>
             BaseURL c = BaseURL cfg \<and> CheckIntervalMinutes c = CheckIntervalMinutes cfg"
proof -
  let ?obj = "[(''ai_provider'', JString (json_text (AIProvider cfg))),
         (''api_key'', JString (json_text (APIKey cfg))),
         (''base_url'', JString (json_text (BaseURL cfg))),
         (''check_interval_minutes'', JNumber (sint (CheckIntervalMinutes cfg))),
         (''root_path'', JString (json_text (RootPath cfg)))]"
  have 1: "viper_get getenv ?obj ''ai_provider'' = Some (JString (AIProvider cfg))"
    using assms(1) json_text_valid [OF assms(5)]
    by (intro viper_get_unset) (simp_all add: env_keys)
  have 2: "viper_get getenv ?obj ''api_key'' = Some (JString (APIKey cfg))"
    using assms(2) json_text_valid [OF assms(6)]
    by (intro viper_get_unset) (simp_all add: env_keys)
  have 3: "viper_get getenv ?obj ''base_url'' = Some (JString (BaseURL cfg))"
    using assms(3) json_text_valid [OF assms(7)]
    by (intro viper_get_unset) (simp_all add: env_keys)
  have 4: "viper_get getenv ?obj ''check_interval_minutes'' =
        Some (JNumber (sint (CheckIntervalMinutes cfg)))"
    using assms(4) by (intro viper_get_unset) (simp_all add: env_keys)
  show ?thesis
    by (simp add: LoadConfig_def SaveConfig_def 1 2 3 4 decode_int_def decode_string_def
        int64_of_float_sint [OF assms(8)])
qed

theorem config_round_trip_without_env_witness:
  "unset no_env ''AUTOGIT_AI_PROVIDER'' \<and> unset no_env ''AUTOGIT_API_KEY'' \<and>
   unset no_env ''AUTOGIT_BASE_URL'' \<and> unset no_env ''AUTOGIT_CHECK_INTERVAL_MINUTES'' \<and>
   valid_utf8 (AIProvider sample_config) \<and> valid_utf8 (APIKey sample_config) \<and>
   valid_utf8 (BaseURL sample_config) \<and>
   \<bar>sint (CheckIntervalMinutes sample_config)\<bar> \<le> 2 ^ 53 \<and>
   (\<exists>c. fst (LoadConfig (\<lambda>s. None) no_env (snd (SaveConfig sample_config empty_store))) = Inr c \<and>
        AIProvider c = AIProvider sample_config \<and> APIKey c = APIKey sample_config \<and>
        BaseURL c = BaseURL sample_config \<and>
        CheckIntervalMinutes c = CheckIntervalMinutes sample_config)"
proof -
  have u: "unset no_env ''AUTOGIT_AI_PROVIDER''" "unset no_env ''AUTOGIT_API_KEY''"
   "unset no_env ''AUTOGIT_BASE_URL''" "unset no_env ''AUTOGIT_CHECK_INTERVAL_MINUTES''"
    by (simp_all add: unset_def no_env_def)
  have "ascii (AIProvider sample_config)" "ascii (APIKey sample_config)"
    "ascii (BaseURL sample_config)"
    by (simp_all add: ascii_def sample_config_def)
  then have v: "valid_utf8 (AIProvider sample_config)" "valid_utf8 (APIKey sample_config)"
    "valid_utf8 (BaseURL sample_config)"
    by (simp_all add: ascii_valid)
  have i: "\<bar>sint (CheckIntervalMinutes sample_config)\<bar> \<le> 2 ^ 53"
    by (simp add: sample_config_def)
  show ?thesis
    using config_round_trip_without_env [OF u v i, of "\<lambda>s. None" empty_store] u v i
    by blast
qed

end
